theory Spec2Isabelle
  imports Main
begin

section \<open>Data model\<close>

text \<open>
  The four tables of \<^verbatim>\<open>database/setup.sql\<close>, one record per row. Column names are
  the camelCase names that \<^verbatim>\<open>snakeToCamel\<close> produces, prefixed by the table.
  Timestamps are integers (microseconds); identifiers are integers.
\<close>

record user =
  u_id :: int
  u_username :: string
  u_email :: string
  u_roleId :: int

record assignment =
  a_id :: int
  a_tutorId :: int
  a_title :: string
  a_description :: "string option"
  a_publishedAt :: int
  a_deadline :: int
  a_s3Url :: "string option"
  a_createdAt :: int
  a_updatedAt :: int

record student_assignment =
  sa_id :: int
  sa_assignmentId :: int
  sa_studentId :: int
  sa_statusId :: int

record submission =
  sub_id :: int
  sub_assignmentId :: int
  sub_studentId :: int
  sub_s3Url :: string
  sub_submittedAt :: int

record tables =
  users :: "user list"
  assignments :: "assignment list"
  student_assignments :: "student_assignment list"
  submissions :: "submission list"

text \<open>
  The constants of \<^verbatim>\<open>constants/Roles\<close> and \<^verbatim>\<open>constants/SubmissionStatus\<close>: the
  identifiers that the seeding statements of \<^verbatim>\<open>setup.sql\<close> give to the rows
  ('Tutor', 'Student') and ('Submitted', 'Pending').
\<close>

definition Roles_TUTOR :: int where "Roles_TUTOR = 1"
definition Roles_STUDENT :: int where "Roles_STUDENT = 2"
definition SubmissionStatus_SUBMITTED :: int where "SubmissionStatus_SUBMITTED = 1"
definition SubmissionStatus_PENDING :: int where "SubmissionStatus_PENDING = 2"

subsection \<open>Errors\<close>

text \<open>
  What a rejected promise carries. \<open>HttpError s m\<close> is an \<^verbatim>\<open>Error\<close> whose
  \<^verbatim>\<open>status\<close> field was set to \<open>s\<close>; \<open>PlainError m\<close> is an \<^verbatim>\<open>Error\<close> thrown with
  a message only; \<open>TypeError\<close> is the runtime's error for reading a property of
  \<^verbatim>\<open>undefined\<close> or calling what is not a function; \<open>JsonSyntaxError\<close> is what
  \<^verbatim>\<open>JSON.parse\<close> throws; \<open>DbError\<close> is what the database driver throws; \<open>S3Error\<close> and
  \<open>MailError\<close> are what the storage and mail clients throw.
\<close>

datatype db_error =
    ConnectionFailure
  | UniqueViolation
  | ForeignKeyViolation
  | NotNullViolation
  | SyntaxError
  | InvalidTextRepresentation
  | NoActiveTransaction

datatype error =
    HttpError nat string
  | PlainError string
  | TypeError
  | JsonSyntaxError
  | DbError db_error
  | S3Error
  | MailError

fun error_status :: "error \<Rightarrow> nat option" where
  "error_status (HttpError s m) = Some s"
| "error_status e = None"

subsection \<open>Environment and state\<close>

text \<open>
  Everything an operation reads from outside: the identifier \<^verbatim>\<open>uuidv4()\<close> returns,
  the process environment, the clock, and which external calls fail. \<open>fails env n\<close>
  says that the call named \<open>n\<close> (a DAO function, \<^verbatim>\<open>BEGIN\<close>, \<^verbatim>\<open>COMMIT\<close>,
  \<^verbatim>\<open>ROLLBACK\<close>, \<^verbatim>\<open>PutObject\<close>, \<^verbatim>\<open>DeleteObject\<close>) is rejected by its server;
  \<open>mail_fails env r\<close> says that delivery to the recipient \<open>r\<close> fails.
\<close>

record env =
  uuid :: string
  AWS_S3_BUCKET_NAME :: string
  AWS_REGION :: string
  EMAIL_USER :: string
  now :: int
  session_tz :: int
  fails :: "string \<Rightarrow> bool"
  mail_fails :: "string \<Rightarrow> bool"
  date_to_string :: "int \<Rightarrow> string"

record mail =
  m_from :: string
  m_to :: string
  m_subject :: string
  m_text :: string

text \<open>
  The state outside the process: the committed tables, the working copy of the
  transaction that a client holds open (if any), the three \<^verbatim>\<open>SERIAL\<close> sequences
  (which no rollback rewinds), the keys stored in the bucket, and the mails
  delivered.
\<close>

record world =
  committed :: tables
  txn :: "tables option"
  seq_assignments :: int
  seq_student_assignments :: int
  seq_submissions :: int
  s3 :: "string list"
  outbox :: "mail list"

text \<open>The object the upload middleware puts in \<^verbatim>\<open>req.file\<close>.\<close>

record uploaded_file =
  originalname :: string
  buffer :: string
  mimetype :: string

section \<open>Leaf operations\<close>

subsection \<open>utils/DatabaseTransaction.js\<close>

definition beginTransaction :: "env \<Rightarrow> world \<Rightarrow> (error + unit) \<times> world" where
  "beginTransaction env w =
     (if fails env ''BEGIN'' then (Inl (DbError ConnectionFailure), w)
      else (Inr (), w\<lparr>txn := Some (committed w)\<rparr>))"

definition commitTransaction :: "env \<Rightarrow> world \<Rightarrow> (error + unit) \<times> world" where
  "commitTransaction env w =
     (if fails env ''COMMIT'' then (Inl (DbError ConnectionFailure), w)
      else case txn w of
             None \<Rightarrow> (Inr (), w)
           | Some t \<Rightarrow> (Inr (), w\<lparr>committed := t, txn := None\<rparr>))"

definition rollbackTransaction :: "env \<Rightarrow> world \<Rightarrow> (error + unit) \<times> world" where
  "rollbackTransaction env w =
     (if fails env ''ROLLBACK'' then (Inl (DbError ConnectionFailure), w)
      else (Inr (), w\<lparr>txn := None\<rparr>))"

subsection \<open>Blob store\<close>

definition S3_send_PutObject :: "string \<Rightarrow> env \<Rightarrow> world \<Rightarrow> (error + unit) \<times> world" where
  "S3_send_PutObject key env w =
     (if fails env ''PutObject'' then (Inl S3Error, w)
      else (Inr (), w\<lparr>s3 := List.insert key (s3 w)\<rparr>))"

definition S3_send_DeleteObject :: "string \<Rightarrow> env \<Rightarrow> world \<Rightarrow> (error + unit) \<times> world" where
  "S3_send_DeleteObject key env w =
     (if fails env ''DeleteObject'' then (Inl S3Error, w)
      else (Inr (), w\<lparr>s3 := removeAll key (s3 w)\<rparr>))"

definition s3_object_url :: "env \<Rightarrow> string \<Rightarrow> string" where
  "s3_object_url env fileKey =
     ''https://'' @ AWS_S3_BUCKET_NAME env @ ''.s3.'' @ AWS_REGION env @ ''.amazonaws.com/'' @ fileKey"

subsection \<open>UserDAO / UserService\<close>

definition getUserByUsername :: "string \<Rightarrow> env \<Rightarrow> world \<Rightarrow> error + user" where
  "getUserByUsername username env w =
     (if fails env ''getUserByUsername'' then Inl (DbError ConnectionFailure)
      else case find (\<lambda>u. u_username u = username) (users (committed w)) of
             None \<Rightarrow> Inl (PlainError (''User with username '' @ [CHR 0x22] @ username
                               @ [CHR 0x22] @ '' not found''))
           | Some u \<Rightarrow> Inr u)"

section \<open>SubmissionsDAO\<close>

definition user_exists :: "tables \<Rightarrow> int \<Rightarrow> bool" where
  "user_exists t i = (find (\<lambda>u. u_id u = i) (users t) \<noteq> None)"

definition assignment_exists :: "tables \<Rightarrow> int \<Rightarrow> bool" where
  "assignment_exists t i = (find (\<lambda>a. a_id a = i) (assignments t) \<noteq> None)"

definition find_submission :: "tables \<Rightarrow> int \<Rightarrow> int \<Rightarrow> submission option" where
  "find_submission t a s =
     find (\<lambda>r. sub_assignmentId r = a \<and> sub_studentId r = s) (submissions t)"

definition find_student_assignment :: "tables \<Rightarrow> int \<Rightarrow> int \<Rightarrow> student_assignment option" where
  "find_student_assignment t a s =
     find (\<lambda>r. sa_assignmentId r = a \<and> sa_studentId r = s) (student_assignments t)"

text \<open>
  \<^verbatim>\<open>saveSubmission\<close>: one \<^verbatim>\<open>INSERT\<close> on the client's transaction. The table's
  \<^verbatim>\<open>UNIQUE(assignment_id, student_id)\<close> and its two foreign keys are checked by the
  store; the identifier comes from the sequence, which advances even when the row
  is refused.
\<close>

definition saveSubmission :: "int \<Rightarrow> int \<Rightarrow> string \<Rightarrow> env \<Rightarrow> world \<Rightarrow> (error + submission) \<times> world" where
  "saveSubmission assignmentId studentId fileUrl env w =
     (if fails env ''saveSubmission'' then (Inl (DbError ConnectionFailure), w)
      else case txn w of
        None \<Rightarrow> (Inl (DbError NoActiveTransaction), w)
      | Some t \<Rightarrow>
          (let row = \<lparr>sub_id = seq_submissions w, sub_assignmentId = assignmentId,
                      sub_studentId = studentId, sub_s3Url = fileUrl,
                      sub_submittedAt = now env\<rparr>;
               w1 = w\<lparr>seq_submissions := seq_submissions w + 1\<rparr>
           in if find_submission t assignmentId studentId \<noteq> None
                then (Inl (DbError UniqueViolation), w1)
              else if \<not> assignment_exists t assignmentId \<or> \<not> user_exists t studentId
                then (Inl (DbError ForeignKeyViolation), w1)
              else (Inr row, w1\<lparr>txn := Some (t\<lparr>submissions := submissions t @ [row]\<rparr>)\<rparr>)))"

definition set_submitted :: "int \<Rightarrow> int \<Rightarrow> student_assignment \<Rightarrow> student_assignment" where
  "set_submitted a s r =
     (if sa_assignmentId r = a \<and> sa_studentId r = s
      then r\<lparr>sa_statusId := SubmissionStatus_SUBMITTED\<rparr> else r)"

definition updateStudentAssignmentStatus :: "int \<Rightarrow> int \<Rightarrow> env \<Rightarrow> world \<Rightarrow> (error + unit) \<times> world" where
  "updateStudentAssignmentStatus assignmentId studentId env w =
     (if fails env ''updateStudentAssignmentStatus'' then (Inl (DbError ConnectionFailure), w)
      else case txn w of
        None \<Rightarrow> (Inl (DbError NoActiveTransaction), w)
      | Some t \<Rightarrow>
          (Inr (), w\<lparr>txn := Some (t\<lparr>student_assignments :=
                      map (set_submitted assignmentId studentId) (student_assignments t)\<rparr>)\<rparr>))"

definition getStudentAssignment :: "int \<Rightarrow> int \<Rightarrow> env \<Rightarrow> world \<Rightarrow> error + student_assignment option" where
  "getStudentAssignment assignmentId studentId env w =
     (if fails env ''getStudentAssignment'' then Inl (DbError ConnectionFailure)
      else Inr (find_student_assignment (committed w) assignmentId studentId))"

definition getSubmissionForStudent :: "int \<Rightarrow> int \<Rightarrow> env \<Rightarrow> world \<Rightarrow> error + submission option" where
  "getSubmissionForStudent assignmentId studentId env w =
     (if fails env ''getSubmissionForStudent'' then Inl (DbError ConnectionFailure)
      else Inr (find_submission (committed w) assignmentId studentId))"

section \<open>SubmissionsService\<close>

record submission_data =
  sd_assignmentId :: int
  sd_studentUsername :: string
  sd_file :: "uploaded_file option"

text \<open>The body of the \<^verbatim>\<open>try\<close> block of \<^verbatim>\<open>addSubmission\<close>.\<close>

definition addSubmission_try :: "int \<Rightarrow> int \<Rightarrow> string \<Rightarrow> env \<Rightarrow> world \<Rightarrow> (error + submission) \<times> world" where
  "addSubmission_try assignmentId studentId fileUrl env w =
     (case saveSubmission assignmentId studentId fileUrl env w of
        (Inl e, w1) \<Rightarrow> (Inl e, w1)
      | (Inr submission, w1) \<Rightarrow>
          (case updateStudentAssignmentStatus assignmentId studentId env w1 of
             (Inl e, w2) \<Rightarrow> (Inl e, w2)
           | (Inr _, w2) \<Rightarrow>
               (case commitTransaction env w2 of
                  (Inl e, w3) \<Rightarrow> (Inl e, w3)
                | (Inr _, w3) \<Rightarrow> (Inr submission, w3))))"

text \<open>
  The \<^verbatim>\<open>catch\<close> clause shared by both transactional workflows: roll back, then
  rethrow; an error of the rollback itself replaces the original one.
\<close>

definition rollback_and_rethrow :: "error \<Rightarrow> env \<Rightarrow> world \<Rightarrow> (error + 'a) \<times> world" where
  "rollback_and_rethrow e env w =
     (case rollbackTransaction env w of
        (Inl e', w') \<Rightarrow> (Inl e', w')
      | (Inr _, w') \<Rightarrow> (Inl e, w'))"

definition addSubmission :: "submission_data \<Rightarrow> env \<Rightarrow> world \<Rightarrow> (error + submission) \<times> world" where
  "addSubmission submissionData env w =
     (case getUserByUsername (sd_studentUsername submissionData) env w of
        Inl e \<Rightarrow> (Inl e, w)
      | Inr user \<Rightarrow>
          if u_roleId user \<noteq> Roles_STUDENT
            then (Inl (HttpError 403 ''Only students can submit assignments''), w)
          else
            (case getStudentAssignment (sd_assignmentId submissionData) (u_id user) env w of
               Inl e \<Rightarrow> (Inl e, w)
             | Inr None \<Rightarrow>
                 (Inl (HttpError 403 ''Student has not been assigned this assignment''), w)
             | Inr (Some studentAssignment) \<Rightarrow>
                 (case sd_file submissionData of
                    None \<Rightarrow> (Inl TypeError, w)
                  | Some file0 \<Rightarrow>
                      (let fileKey = uuid env @ ''-'' @ originalname file0 in
                       case S3_send_PutObject fileKey env w of
                         (Inl e, w1) \<Rightarrow> (Inl e, w1)
                       | (Inr _, w1) \<Rightarrow>
                           (let fileUrl = s3_object_url env fileKey in
                            case beginTransaction env w1 of
                              (Inl e, w2) \<Rightarrow> (Inl e, w2)
                            | (Inr _, w2) \<Rightarrow>
                                (case addSubmission_try (sd_assignmentId submissionData)
                                        (u_id user) fileUrl env w2 of
                                   (Inl e, w3) \<Rightarrow> rollback_and_rethrow e env w3
                                 | (Inr submission, w3) \<Rightarrow> (Inr submission, w3)))))))"

section \<open>AssignmentDAO\<close>

text \<open>
  The value of \<^verbatim>\<open>studentIds\<close> as it reaches the service, untouched by any parsing.
  The code looks at it in three ways only: its truthiness and \<^verbatim>\<open>length\<close>, what
  \<^verbatim>\<open>JSON.parse\<close> makes of it when it is a string, and what \<^verbatim>\<open>Number\<close> makes of each
  element. So an array is given by its elements as \<^verbatim>\<open>Number\<close> reads them (\<open>None\<close>
  for \<^verbatim>\<open>NaN\<close> or a number that is not an integer), and a string by the outcome of
  \<^verbatim>\<open>JSON.parse\<close>: a syntax error, an array, or a value that is not an array. The
  string is never empty: the constructor of the request replaces an empty string by
  \<^verbatim>\<open>[]\<close>. \<open>IdsObject\<close> is any other truthy value (it has no \<^verbatim>\<open>length\<close> and no
  \<^verbatim>\<open>map\<close>).
\<close>

datatype parsed =
    ParseThrows
  | ParsedArray "int option list"
  | ParsedOther

datatype student_ids =
    IdsArray "int option list"
  | IdsString parsed
  | IdsObject

text \<open>
  The object built by \<^verbatim>\<open>models/CreateAssignmentRequest.js\<close>: its constructor has
  already refused a missing title, due date or file and filled in the defaults.
\<close>

record CreateAssignmentRequest =
  car_title :: string
  car_description :: "string option"
  car_publishedAt :: int
  car_dueDate :: int
  car_file :: uploaded_file
  car_studentIds :: student_ids
  car_username :: string

definition saveAssignment ::
  "CreateAssignmentRequest \<Rightarrow> string \<Rightarrow> int \<Rightarrow> env \<Rightarrow> world \<Rightarrow> (error + assignment) \<times> world" where
  "saveAssignment assignmentData fileUrl createdBy env w =
     (if fails env ''saveAssignment'' then (Inl (DbError ConnectionFailure), w)
      else case txn w of
        None \<Rightarrow> (Inl (DbError NoActiveTransaction), w)
      | Some t \<Rightarrow>
          (let row = \<lparr>a_id = seq_assignments w, a_tutorId = createdBy,
                      a_title = car_title assignmentData,
                      a_description = car_description assignmentData,
                      a_publishedAt = car_publishedAt assignmentData,
                      a_deadline = car_dueDate assignmentData,
                      a_s3Url = Some fileUrl,
                      a_createdAt = now env div 1000, a_updatedAt = now env div 1000\<rparr>;
               w1 = w\<lparr>seq_assignments := seq_assignments w + 1\<rparr>
           in if \<not> user_exists t createdBy
                then (Inl (DbError ForeignKeyViolation), w1)
              else (Inr row, w1\<lparr>txn := Some (t\<lparr>assignments := assignments t @ [row]\<rparr>)\<rparr>)))"

definition getAssignmentById :: "int \<Rightarrow> env \<Rightarrow> world \<Rightarrow> error + assignment option" where
  "getAssignmentById assignmentId env w =
     (if fails env ''getAssignmentById'' then Inl (DbError ConnectionFailure)
      else Inr (find (\<lambda>a. a_id a = assignmentId) (assignments (committed w))))"

text \<open>
  The rows of the multi-row \<^verbatim>\<open>INSERT ... ON CONFLICT (assignment_id, student_id) DO
  NOTHING\<close>, taken one at a time on the working copy \<open>t\<close> with the sequence at
  \<open>sq\<close>: a pair already mapped is skipped, a row whose assignment or student does not
  exist stops the statement with the rows before it already written.
\<close>

fun insert_student_assignments ::
  "int \<Rightarrow> int list \<Rightarrow> tables \<Rightarrow> int \<Rightarrow> db_error option \<times> tables \<times> int" where
  "insert_student_assignments a [] t sq = (None, t, sq)"
| "insert_student_assignments a (s # ss) t sq =
     (if find_student_assignment t a s \<noteq> None
        then insert_student_assignments a ss t (sq + 1)
      else if \<not> assignment_exists t a \<or> \<not> user_exists t s
        then (Some ForeignKeyViolation, t, sq + 1)
      else insert_student_assignments a ss
             (t\<lparr>student_assignments := student_assignments t @
                  [\<lparr>sa_id = sq, sa_assignmentId = a, sa_studentId = s,
                    sa_statusId = SubmissionStatus_PENDING\<rparr>]\<rparr>)
             (sq + 1))"

text \<open>
  The first two statements of \<^verbatim>\<open>saveStudentAssignments\<close>: \<^verbatim>\<open>JSON.parse\<close> when the
  value is a string, then \<^verbatim>\<open>map(Number)\<close>.
\<close>

fun map_Number :: "student_ids \<Rightarrow> error + int option list" where
  "map_Number (IdsArray xs) = Inr xs"
| "map_Number (IdsString ParseThrows) = Inl JsonSyntaxError"
| "map_Number (IdsString (ParsedArray xs)) = Inr xs"
| "map_Number (IdsString ParsedOther) = Inl TypeError"
| "map_Number IdsObject = Inl TypeError"

text \<open>
  Then the statement is built and sent. With no element the text reads
  \<^verbatim>\<open>VALUES  ON CONFLICT\<close>, which the store refuses as a syntax error; an element
  that is not an integer is refused when the parameters are read; in both cases no
  row is written.
\<close>

definition saveStudentAssignments :: "int \<Rightarrow> student_ids \<Rightarrow> env \<Rightarrow> world \<Rightarrow> (error + unit) \<times> world" where
  "saveStudentAssignments assignmentId studentIds env w =
     (case map_Number studentIds of
        Inl e \<Rightarrow> (Inl e, w)
      | Inr numbers \<Rightarrow>
          if fails env ''saveStudentAssignments'' then (Inl (DbError ConnectionFailure), w)
          else if numbers = [] then (Inl (DbError SyntaxError), w)
          else
            (case those numbers of
               None \<Rightarrow> (Inl (DbError InvalidTextRepresentation), w)
             | Some ids \<Rightarrow>
                 (case txn w of
                    None \<Rightarrow> (Inl (DbError NoActiveTransaction), w)
                  | Some t \<Rightarrow>
                      (case insert_student_assignments assignmentId ids t
                              (seq_student_assignments w) of
                         (Some e, t', sq) \<Rightarrow>
                           (Inl (DbError e), w\<lparr>txn := Some t', seq_student_assignments := sq\<rparr>)
                       | (None, t', sq) \<Rightarrow>
                           (Inr (), w\<lparr>txn := Some t', seq_student_assignments := sq\<rparr>)))))"

text \<open>
  The request of a partial update. A field is \<open>None\<close> when it is \<^verbatim>\<open>undefined\<close>,
  \<open>Some None\<close> when it is \<^verbatim>\<open>null\<close>, and \<open>Some (Some v)\<close> when it carries a value.
\<close>

record update_data =
  ud_title :: "string option option"
  ud_description :: "string option option"
  ud_dueDate :: "int option option"
  ud_publishedAt :: "int option option"
  ud_fileUrl :: "string option option"
  ud_file :: "uploaded_file option"
  ud_username :: string

text \<open>One entry of the \<^verbatim>\<open>fields\<close>/\<^verbatim>\<open>values\<close> arrays: a column and its new value.\<close>

datatype column_update =
    SetTitle "string option"
  | SetDescription "string option"
  | SetDeadline "int option"
  | SetPublishedAt "int option"
  | SetS3Url "string option"

definition update_fields :: "update_data \<Rightarrow> column_update list" where
  "update_fields updateData =
     (case ud_title updateData of None \<Rightarrow> [] | Some v \<Rightarrow> [SetTitle v]) @
     (case ud_description updateData of None \<Rightarrow> [] | Some v \<Rightarrow> [SetDescription v]) @
     (case ud_dueDate updateData of None \<Rightarrow> [] | Some v \<Rightarrow> [SetDeadline v]) @
     (case ud_publishedAt updateData of None \<Rightarrow> [] | Some v \<Rightarrow> [SetPublishedAt v]) @
     (case ud_fileUrl updateData of None \<Rightarrow> [] | Some v \<Rightarrow> [SetS3Url v])"

fun violates_not_null :: "column_update \<Rightarrow> bool" where
  "violates_not_null (SetTitle None) = True"
| "violates_not_null (SetDeadline None) = True"
| "violates_not_null (SetPublishedAt None) = True"
| "violates_not_null c = False"

fun set_column :: "assignment \<Rightarrow> column_update \<Rightarrow> assignment" where
  "set_column r (SetTitle (Some v)) = r\<lparr>a_title := v\<rparr>"
| "set_column r (SetTitle None) = r"
| "set_column r (SetDescription v) = r\<lparr>a_description := v\<rparr>"
| "set_column r (SetDeadline (Some v)) = r\<lparr>a_deadline := v\<rparr>"
| "set_column r (SetDeadline None) = r"
| "set_column r (SetPublishedAt (Some v)) = r\<lparr>a_publishedAt := v\<rparr>"
| "set_column r (SetPublishedAt None) = r"
| "set_column r (SetS3Url v) = r\<lparr>a_s3Url := v\<rparr>"

definition update_row :: "int \<Rightarrow> column_update list \<Rightarrow> assignment \<Rightarrow> assignment" where
  "update_row assignmentId cols r =
     (if a_id r = assignmentId then foldl set_column r cols else r)"

definition AssignmentDAO_updateAssignment ::
  "int \<Rightarrow> update_data \<Rightarrow> env \<Rightarrow> world \<Rightarrow> (error + assignment option) \<times> world" where
  "AssignmentDAO_updateAssignment assignmentId updateData env w =
     (let cols = update_fields updateData in
      if length cols = 0 then (Inl (PlainError ''No fields provided to update''), w)
      else if fails env ''updateAssignment'' then (Inl (DbError ConnectionFailure), w)
      else if assignment_exists (committed w) assignmentId \<and> list_ex violates_not_null cols
        then (Inl (DbError NotNullViolation), w)
      else
        (let rows = map (update_row assignmentId cols) (assignments (committed w)) in
         (Inr (find (\<lambda>a. a_id a = assignmentId) rows),
          w\<lparr>committed := (committed w)\<lparr>assignments := rows\<rparr>\<rparr>)))"

text \<open>
  \<^verbatim>\<open>DELETE FROM tblm_assignments WHERE id = $1\<close>; the two child tables declare
  \<^verbatim>\<open>ON DELETE CASCADE\<close>, so the rows that reference a deleted assignment go with it.
\<close>

definition delete_cascade :: "int \<Rightarrow> tables \<Rightarrow> tables" where
  "delete_cascade assignmentId t =
     (if assignment_exists t assignmentId
      then t\<lparr>assignments := filter (\<lambda>a. a_id a \<noteq> assignmentId) (assignments t),
             student_assignments :=
               filter (\<lambda>r. sa_assignmentId r \<noteq> assignmentId) (student_assignments t),
             submissions := filter (\<lambda>r. sub_assignmentId r \<noteq> assignmentId) (submissions t)\<rparr>
      else t)"

definition AssignmentDAO_deleteAssignment :: "int \<Rightarrow> env \<Rightarrow> world \<Rightarrow> (error + unit) \<times> world" where
  "AssignmentDAO_deleteAssignment assignmentId env w =
     (if fails env ''deleteAssignment'' then (Inl (DbError ConnectionFailure), w)
      else (Inr (), w\<lparr>committed := delete_cascade assignmentId (committed w)\<rparr>))"

text \<open>
  \<^verbatim>\<open>NOW()\<close> as the store compares it with a \<^verbatim>\<open>TIMESTAMP\<close> column: the current
  instant read in the session's time zone.
\<close>

definition NOW :: "env \<Rightarrow> int" where
  "NOW env = now env + session_tz env"






section \<open>AssignmentService\<close>

text \<open>
  The guard \<^verbatim>\<open>studentIds && studentIds.length > 0\<close>, on the value as it came: an
  array passes when it has an element, a string (never empty here) always, a value
  without \<^verbatim>\<open>length\<close> never.
\<close>

fun has_length :: "student_ids \<Rightarrow> bool" where
  "has_length (IdsArray xs) = (length xs > 0)"
| "has_length (IdsString p) = True"
| "has_length IdsObject = False"

text \<open>The body of the \<^verbatim>\<open>try\<close> block that \<^verbatim>\<open>createAssignment\<close> runs on the client.\<close>

definition createAssignment_try ::
  "CreateAssignmentRequest \<Rightarrow> string \<Rightarrow> int \<Rightarrow> env \<Rightarrow> world \<Rightarrow> (error + assignment) \<times> world" where
  "createAssignment_try assignmentData fileUrl createdBy env w =
     (case saveAssignment assignmentData fileUrl createdBy env w of
        (Inl e, w1) \<Rightarrow> (Inl e, w1)
      | (Inr savedAssignment, w1) \<Rightarrow>
          (case (if has_length (car_studentIds assignmentData)
                 then saveStudentAssignments (a_id savedAssignment)
                        (car_studentIds assignmentData) env w1
                 else (Inr (), w1)) of
             (Inl e, w2) \<Rightarrow> (Inl e, w2)
           | (Inr _, w2) \<Rightarrow>
               (case commitTransaction env w2 of
                  (Inl e, w3) \<Rightarrow> (Inl e, w3)
                | (Inr _, w3) \<Rightarrow> (Inr savedAssignment, w3))))"

definition createAssignment ::
  "CreateAssignmentRequest \<Rightarrow> env \<Rightarrow> world \<Rightarrow> (error + assignment) \<times> world" where
  "createAssignment assignmentData env w =
     (case getUserByUsername (car_username assignmentData) env w of
        Inl e \<Rightarrow> (Inl e, w)
      | Inr user \<Rightarrow>
          if u_roleId user \<noteq> Roles_TUTOR
            then (Inl (HttpError 403 ''Only TUTORS can create assignments''), w)
          else
            (let fileKey = uuid env @ ''-'' @ originalname (car_file assignmentData) in
             case S3_send_PutObject fileKey env w of
               (Inl e, w1) \<Rightarrow> (Inl e, w1)
             | (Inr _, w1) \<Rightarrow>
                 (let fileUrl = s3_object_url env fileKey in
                  case beginTransaction env w1 of
                    (Inl e, w2) \<Rightarrow> (Inl e, w2)
                  | (Inr _, w2) \<Rightarrow>
                      (case createAssignment_try assignmentData fileUrl (u_id user) env w2 of
                         (Inl e, w3) \<Rightarrow> rollback_and_rethrow e env w3
                       | (Inr savedAssignment, w3) \<Rightarrow> (Inr savedAssignment, w3)))))"

definition updateAssignment ::
  "int \<Rightarrow> update_data \<Rightarrow> env \<Rightarrow> world \<Rightarrow> (error + assignment option) \<times> world" where
  "updateAssignment assignmentId updateData env w =
     (case getUserByUsername (ud_username updateData) env w of
        Inl e \<Rightarrow> (Inl e, w)
      | Inr user \<Rightarrow>
          if u_roleId user \<noteq> Roles_TUTOR
            then (Inl (HttpError 403 ''Only TUTORS can update assignments''), w)
          else
            (case getAssignmentById assignmentId env w of
               Inl e \<Rightarrow> (Inl e, w)
             | Inr None \<Rightarrow> (Inl (HttpError 404 ''Assignment not found''), w)
             | Inr (Some existingAssignment) \<Rightarrow>
                 if a_tutorId existingAssignment \<noteq> u_id user
                   then (Inl (HttpError 403 ''You can only update assignments you created''), w)
                 else
                   (case ud_file updateData of
                      None \<Rightarrow> AssignmentDAO_updateAssignment assignmentId updateData env w
                    | Some file0 \<Rightarrow>
                        (let fileKey = uuid env @ ''-'' @ originalname file0 in
                         case S3_send_PutObject fileKey env w of
                           (Inl e, w1) \<Rightarrow> (Inl e, w1)
                         | (Inr _, w1) \<Rightarrow>
                             AssignmentDAO_updateAssignment assignmentId
                               (updateData\<lparr>ud_fileUrl := Some (Some (s3_object_url env fileKey))\<rparr>)
                               env w1))))"

text \<open>\<^verbatim>\<open>url.split('/').pop()\<close>: what follows the last slash.\<close>

definition last_segment :: "string \<Rightarrow> string" where
  "last_segment url = rev (takeWhile (\<lambda>c. c \<noteq> CHR ''/'') (rev url))"

text \<open>
  The file is deleted from the bucket when \<^verbatim>\<open>existingAssignment.s3Url\<close> is truthy:
  neither \<^verbatim>\<open>null\<close> nor the empty string.
\<close>

definition deleteAssignment :: "int \<Rightarrow> string \<Rightarrow> env \<Rightarrow> world \<Rightarrow> (error + unit) \<times> world" where
  "deleteAssignment assignmentId username env w =
     (case getUserByUsername username env w of
        Inl e \<Rightarrow> (Inl e, w)
      | Inr user \<Rightarrow>
          if u_roleId user \<noteq> Roles_TUTOR
            then (Inl (HttpError 403 ''Only TUTORS can delete assignments''), w)
          else
            (case getAssignmentById assignmentId env w of
               Inl e \<Rightarrow> (Inl e, w)
             | Inr None \<Rightarrow> (Inl (HttpError 404 ''Assignment not found''), w)
             | Inr (Some existingAssignment) \<Rightarrow>
                 if a_tutorId existingAssignment \<noteq> u_id user
                   then (Inl (HttpError 403 ''You can only delete assignments you created''), w)
                 else
                   (case a_s3Url existingAssignment of
                      None \<Rightarrow> AssignmentDAO_deleteAssignment assignmentId env w
                    | Some url \<Rightarrow>
                        if url = [] then AssignmentDAO_deleteAssignment assignmentId env w
                        else
                          (let fileKey = last_segment url in
                           case S3_send_DeleteObject fileKey env w of
                             (Inl e, w1) \<Rightarrow> (Inl e, w1)
                           | (Inr _, w1) \<Rightarrow> AssignmentDAO_deleteAssignment assignmentId env w1))))"


section \<open>NotificationService\<close>

record upcoming =
  assignment_id :: int
  assignment_title :: string
  deadline :: int
  student_email :: string

text \<open>
  \<^verbatim>\<open>now() AT TIME ZONE 'asia/kolkata'\<close>: the current instant read on a clock in
  Kolkata (UTC+5:30), in microseconds; the intervals of the \<^verbatim>\<open>BETWEEN\<close> clause.
\<close>

definition NOW_kolkata :: "env \<Rightarrow> int" where
  "NOW_kolkata env = now env + 19800000000"

definition INTERVAL_59_minutes :: int where
  "INTERVAL_59_minutes = 3540000000"

definition INTERVAL_1_hour :: int where
  "INTERVAL_1_hour = 3600000000"

definition upcoming_clause :: "env \<Rightarrow> assignment \<Rightarrow> student_assignment \<Rightarrow> bool" where
  "upcoming_clause env a sa =
     (NOW_kolkata env + INTERVAL_59_minutes \<le> a_deadline a
      \<and> a_deadline a \<le> NOW_kolkata env + INTERVAL_1_hour
      \<and> sa_statusId sa = SubmissionStatus_PENDING)"

definition upcoming_rows :: "env \<Rightarrow> tables \<Rightarrow> student_assignment \<Rightarrow> upcoming list" where
  "upcoming_rows env t sa =
     concat (map (\<lambda>a.
       map (\<lambda>u. \<lparr>assignment_id = sa_assignmentId sa, assignment_title = a_title a,
                  deadline = a_deadline a, student_email = u_email u\<rparr>)
         (filter (\<lambda>u. sa_studentId sa = u_id u) (users t)))
       (filter (\<lambda>a. sa_assignmentId sa = a_id a \<and> upcoming_clause env a sa) (assignments t)))"

definition fetchUpcomingAssignments :: "env \<Rightarrow> world \<Rightarrow> error + upcoming list" where
  "fetchUpcomingAssignments env w =
     (if fails env ''fetchUpcomingAssignments'' then Inl (DbError ConnectionFailure)
      else Inr (concat (map (upcoming_rows env (committed w))
                          (student_assignments (committed w)))))"

text \<open>The two lines \<^verbatim>\<open>sendNotifications\<close> writes to the console, and the service's own.\<close>

datatype log_line =
    NotificationSent string string
  | NotificationFailed string error
  | NoUpcoming
  | ServiceError error

definition mailOptions :: "env \<Rightarrow> upcoming \<Rightarrow> mail" where
  "mailOptions env r =
     \<lparr>m_from = EMAIL_USER env, m_to = student_email r,
      m_subject = ''Upcoming Assignment Deadline: '' @ assignment_title r,
      m_text = ''Dear Student,'' @ [CHR 0x0A, CHR 0x0A]
               @ ''This is a reminder that the deadline for the assignment '' @ [CHR 0x22]
               @ assignment_title r @ [CHR 0x22] @ '' is at '' @ date_to_string env (deadline r)
               @ ''.'' @ [CHR 0x0A, CHR 0x0A] @ ''Please make sure to submit it on time.''
               @ [CHR 0x0A, CHR 0x0A] @ ''Best regards,'' @ [CHR 0x0A]
               @ ''Virtual Classroom Team''\<rparr>"

definition sendMail :: "mail \<Rightarrow> env \<Rightarrow> world \<Rightarrow> (error + unit) \<times> world" where
  "sendMail m env w =
     (if mail_fails env (m_to m) then (Inl MailError, w)
      else (Inr (), w\<lparr>outbox := outbox w @ [m]\<rparr>))"

fun sendNotifications :: "upcoming list \<Rightarrow> env \<Rightarrow> world \<Rightarrow> log_line list \<times> world" where
  "sendNotifications [] env w = ([], w)"
| "sendNotifications (r # rs) env w =
     (case sendMail (mailOptions env r) env w of
        (Inr _, w1) \<Rightarrow>
          (let (ls, w2) = sendNotifications rs env w1
           in (NotificationSent (student_email r) (assignment_title r) # ls, w2))
      | (Inl e, w1) \<Rightarrow>
          (let (ls, w2) = sendNotifications rs env w1
           in (NotificationFailed (student_email r) e # ls, w2)))"

definition notifyUpcomingAssignments :: "env \<Rightarrow> world \<Rightarrow> log_line list \<times> world" where
  "notifyUpcomingAssignments env w =
     (case fetchUpcomingAssignments env w of
        Inl e \<Rightarrow> ([ServiceError e], w)
      | Inr rows \<Rightarrow>
          if length rows > 0 then sendNotifications rows env w
          else ([NoUpcoming], w))"

section \<open>Sequences of operations\<close>

text \<open>
  The state-changing entry points of the services and the scheduler's tick, each
  with the environment it runs in; \<open>run\<close> applies them one after the other.
\<close>

datatype request =
    CreateAssignment CreateAssignmentRequest
  | UpdateAssignment int update_data
  | DeleteAssignment int string
  | AddSubmission submission_data
  | NotificationTick

fun serve :: "request \<Rightarrow> env \<Rightarrow> world \<Rightarrow> world" where
  "serve (CreateAssignment d) env w = snd (createAssignment d env w)"
| "serve (UpdateAssignment i d) env w = snd (updateAssignment i d env w)"
| "serve (DeleteAssignment i u) env w = snd (deleteAssignment i u env w)"
| "serve (AddSubmission d) env w = snd (addSubmission d env w)"
| "serve NotificationTick env w = snd (notifyUpcomingAssignments env w)"

fun run :: "(request \<times> env) list \<Rightarrow> world \<Rightarrow> world" where
  "run [] w = w"
| "run ((r, env) # rs) w = run rs (serve r env w)"

section \<open>Properties stated over the tables\<close>

text \<open>
  The status recorded for a pair, and invariant I2: the status of a pair is
  SUBMITTED exactly when a submission row exists for it.
\<close>

definition status_of :: "tables \<Rightarrow> int \<Rightarrow> int \<Rightarrow> int option" where
  "status_of t a s = map_option sa_statusId (find_student_assignment t a s)"

definition status_consistent :: "tables \<Rightarrow> bool" where
  "status_consistent t =
     (\<forall>a s. (status_of t a s = Some SubmissionStatus_SUBMITTED) = (find_submission t a s \<noteq> None))"

text \<open>The submission rows of a pair.\<close>

definition submissions_of :: "tables \<Rightarrow> int \<Rightarrow> int \<Rightarrow> submission list" where
  "submissions_of t a s =
     filter (\<lambda>r. sub_assignmentId r = a \<and> sub_studentId r = s) (submissions t)"

text \<open>
  What the schema guarantees for the scanner's join: identifiers are primary keys,
  and every mapping row references an existing assignment and an existing user.
\<close>

definition referential_integrity :: "tables \<Rightarrow> bool" where
  "referential_integrity t =
     (distinct (map a_id (assignments t)) \<and> distinct (map u_id (users t))
      \<and> list_all (\<lambda>sa. assignment_exists t (sa_assignmentId sa) \<and> user_exists t (sa_studentId sa))
           (student_assignments t))"

text \<open>
  The reminder window as the specification words it, over a reading \<open>clock\<close> of the
  current time (microseconds): the row is PENDING and its assignment's deadline is
  at least 59 minutes (3 540 000 000) and at most 60 minutes (3 600 000 000) after
  \<open>clock\<close>.
\<close>

definition reminder_due :: "int \<Rightarrow> tables \<Rightarrow> student_assignment \<Rightarrow> bool" where
  "reminder_due clock t sa =
     (case find (\<lambda>a. a_id a = sa_assignmentId sa) (assignments t) of
        None \<Rightarrow> False
      | Some a \<Rightarrow> sa_statusId sa = SubmissionStatus_PENDING
                  \<and> clock + 3540000000 \<le> a_deadline a
                  \<and> a_deadline a \<le> clock + 3600000000)"

text \<open>The reminder owed for a mapping row: its assignment's title and deadline, its student's address.\<close>

definition upcoming_of :: "tables \<Rightarrow> student_assignment \<Rightarrow> upcoming" where
  "upcoming_of t sa =
     \<lparr>assignment_id = sa_assignmentId sa,
      assignment_title =
        (case find (\<lambda>a. a_id a = sa_assignmentId sa) (assignments t) of
           None \<Rightarrow> [] | Some a \<Rightarrow> a_title a),
      deadline =
        (case find (\<lambda>a. a_id a = sa_assignmentId sa) (assignments t) of
           None \<Rightarrow> 0 | Some a \<Rightarrow> a_deadline a),
      student_email =
        (case find (\<lambda>u. u_id u = sa_studentId sa) (users t) of
           None \<Rightarrow> [] | Some u \<Rightarrow> u_email u)\<rparr>"

text \<open>The recipients for which the notifier was invoked, read off the console lines.\<close>

fun notified :: "log_line list \<Rightarrow> string list" where
  "notified [] = []"
| "notified (NotificationSent r t # ls) = r # notified ls"
| "notified (NotificationFailed r e # ls) = r # notified ls"
| "notified (l # ls) = notified ls"

text \<open>The student identities a request lists: the integers of the array it carries or denotes.\<close>

fun integers :: "int option list \<Rightarrow> int list" where
  "integers [] = []"
| "integers (None # xs) = integers xs"
| "integers (Some n # xs) = n # integers xs"

fun requested_ids :: "student_ids \<Rightarrow> int list" where
  "requested_ids (IdsArray xs) = integers xs"
| "requested_ids (IdsString (ParsedArray xs)) = integers xs"
| "requested_ids v = []"

text \<open>
  How a fan-out may change the tables: no submission is touched, and the status of a
  pair is either what it was or PENDING where the pair had no row.
\<close>

definition fanout_related :: "tables \<Rightarrow> tables \<Rightarrow> bool" where
  "fanout_related t t' =
     (submissions t' = submissions t \<and>
      (\<forall>b s. status_of t' b s = status_of t b s
         \<or> (status_of t b s = None \<and> status_of t' b s = Some SubmissionStatus_PENDING)))"




text \<open>The condition under which \<^verbatim>\<open>deleteAssignment\<close> calls the bucket.\<close>

definition truthy_url :: "string option \<Rightarrow> bool" where
  "truthy_url v = (case v of None \<Rightarrow> False | Some url \<Rightarrow> url \<noteq> [])"

section \<open>An example state\<close>

text \<open>
  Two tutors, two students, one assignment of the first tutor mapped to the first
  student, nothing submitted yet.
\<close>

definition tina :: user where
  "tina = \<lparr>u_id = 1, u_username = ''tina'', u_email = ''tina@example.org'', u_roleId = 1\<rparr>"

definition sam :: user where
  "sam = \<lparr>u_id = 2, u_username = ''sam'', u_email = ''sam@example.org'', u_roleId = 2\<rparr>"

definition sue :: user where
  "sue = \<lparr>u_id = 3, u_username = ''sue'', u_email = ''sue@example.org'', u_roleId = 2\<rparr>"

definition tom :: user where
  "tom = \<lparr>u_id = 4, u_username = ''tom'', u_email = ''tom@example.org'', u_roleId = 1\<rparr>"

definition hw1 :: assignment where
  "hw1 = \<lparr>a_id = 1, a_tutorId = 1, a_title = ''HW1'', a_description = None,
          a_publishedAt = 100, a_deadline = 23370000000,
          a_s3Url = Some ''https://b.s3.r.amazonaws.com/u0-hw1.pdf'',
          a_createdAt = 0, a_updatedAt = 0\<rparr>"

definition demo_tables :: tables where
  "demo_tables =
     \<lparr>users = [tina, sam, sue, tom],
      assignments = [hw1],
      student_assignments =
        [\<lparr>sa_id = 1, sa_assignmentId = 1, sa_studentId = 2, sa_statusId = 2\<rparr>],
      submissions = []\<rparr>"

definition demo_world :: world where
  "demo_world = \<lparr>committed = demo_tables, txn = None, seq_assignments = 2,
                  seq_student_assignments = 2, seq_submissions = 1,
                  s3 = [''u0-hw1.pdf''], outbox = []\<rparr>"

definition demo_env :: env where
  "demo_env = \<lparr>uuid = ''u1'', AWS_S3_BUCKET_NAME = ''b'', AWS_REGION = ''r'',
                EMAIL_USER = ''noreply@example.org'', now = 1000, session_tz = 0,
                fails = (\<lambda>n. False), mail_fails = (\<lambda>r. False),
                date_to_string = (\<lambda>t. ''soon'')\<rparr>"

definition demo_file :: uploaded_file where
  "demo_file = \<lparr>originalname = ''a.pdf'', buffer = ''%PDF'', mimetype = ''application/pdf''\<rparr>"

text \<open>The tables after the first student has submitted a file for the assignment.\<close>

definition demo_submission :: submission where
  "demo_submission = \<lparr>sub_id = 1, sub_assignmentId = 1, sub_studentId = 2,
                       sub_s3Url = ''https://b.s3.r.amazonaws.com/u1-a.pdf'',
                       sub_submittedAt = 1000\<rparr>"

definition demo_submitted :: tables where
  "demo_submitted =
     \<lparr>users = [tina, sam, sue, tom],
      assignments = [hw1],
      student_assignments =
        [\<lparr>sa_id = 1, sa_assignmentId = 1, sa_studentId = 2, sa_statusId = 1\<rparr>],
      submissions = [demo_submission]\<rparr>"

definition demo_world_submitted :: world where
  "demo_world_submitted =
     demo_world\<lparr>committed := demo_submitted, seq_submissions := 2,
                s3 := [''u1-a.pdf'', ''u0-hw1.pdf'']\<rparr>"

text \<open>Requests used below: a submission by the mapped student, and two creations.\<close>

definition sam_submits :: submission_data where
  "sam_submits = \<lparr>sd_assignmentId = 1, sd_studentUsername = ''sam'', sd_file = Some demo_file\<rparr>"

definition tina_creates :: "student_ids \<Rightarrow> CreateAssignmentRequest" where
  "tina_creates ids =
     \<lparr>car_title = ''HW2'', car_description = None, car_publishedAt = 2000, car_dueDate = 9000,
      car_file = demo_file, car_studentIds = ids, car_username = ''tina''\<rparr>"

definition hw2 :: assignment where
  "hw2 = \<lparr>a_id = 2, a_tutorId = 1, a_title = ''HW2'', a_description = None,
          a_publishedAt = 2000, a_deadline = 9000,
          a_s3Url = Some ''https://b.s3.r.amazonaws.com/u1-a.pdf'',
          a_createdAt = 1, a_updatedAt = 1\<rparr>"

text \<open>Environments in which one external call fails, and a second mapped student.\<close>

definition demo_env_bucket_down :: env where
  "demo_env_bucket_down = demo_env\<lparr>fails := (\<lambda>n. n = ''DeleteObject'')\<rparr>"

definition demo_env_sam_bounces :: env where
  "demo_env_sam_bounces = demo_env\<lparr>mail_fails := (\<lambda>r. r = ''sam@example.org'')\<rparr>"

definition demo_world_two :: world where
  "demo_world_two =
     demo_world\<lparr>committed := demo_tables\<lparr>student_assignments :=
       [\<lparr>sa_id = 1, sa_assignmentId = 1, sa_studentId = 2, sa_statusId = 2\<rparr>,
        \<lparr>sa_id = 2, sa_assignmentId = 1, sa_studentId = 3, sa_statusId = 2\<rparr>]\<rparr>\<rparr>"

definition retitle :: "string \<Rightarrow> update_data" where
  "retitle u =
     \<lparr>ud_title = Some (Some ''Homework 1''), ud_description = None, ud_dueDate = None,
      ud_publishedAt = None, ud_fileUrl = None, ud_file = None, ud_username = u\<rparr>"

definition empty_update :: "string \<Rightarrow> update_data" where
  "empty_update u =
     \<lparr>ud_title = None, ud_description = None, ud_dueDate = None,
      ud_publishedAt = None, ud_fileUrl = None, ud_file = None, ud_username = u\<rparr>"

text \<open>
  The assignment with its deadline 59 minutes and 30 seconds after the clock of
  \<open>demo_env\<close>, whose session is in UTC (\<open>session_tz = 0\<close>); the first student's mapping
  row is PENDING.
\<close>

definition hw_soon :: assignment where
  "hw_soon = hw1\<lparr>a_deadline := 3570001000\<rparr>"

definition sam_hw1 :: student_assignment where
  "sam_hw1 = \<lparr>sa_id = 1, sa_assignmentId = 1, sa_studentId = 2, sa_statusId = 2\<rparr>"

definition demo_world_soon :: world where
  "demo_world_soon =
     demo_world\<lparr>committed := demo_tables\<lparr>assignments := [hw_soon],
                                           student_assignments := [sam_hw1]\<rparr>\<rparr>"

section \<open>Lemmas on the tables\<close>

lemma status_ne: "SubmissionStatus_PENDING \<noteq> SubmissionStatus_SUBMITTED"
  by (simp add: SubmissionStatus_PENDING_def SubmissionStatus_SUBMITTED_def)

lemma find_snoc: "find P (xs @ [x]) = (case find P xs of None \<Rightarrow> (if P x then Some x else None) | Some y \<Rightarrow> Some y)"
  by (induction xs) auto

lemma find_filter_key:
  "find P (filter Q xs) = find (\<lambda>x. Q x \<and> P x) xs"
  by (induction xs) auto

lemma find_map_key:
  "(\<And>x. P (f x) = P x) \<Longrightarrow> find P (map f xs) = map_option f (find P xs)"
  by (induction xs) auto

lemma insert_student_assignments_submissions:
  "insert_student_assignments a ss t sq = (r, t', sq') \<Longrightarrow> submissions t' = submissions t"
  by (induction a ss t sq rule: insert_student_assignments.induct) (auto split: if_splits)

lemma insert_student_assignments_status:
  "insert_student_assignments a ss t sq = (r, t', sq') \<Longrightarrow>
     status_of t' b s = status_of t b s
     \<or> (status_of t b s = None \<and> status_of t' b s = Some SubmissionStatus_PENDING)"
proof (induction a ss t sq rule: insert_student_assignments.induct)
  case (1 a t sq)
  then show ?case by simp
next
  case (2 a x ss t sq)
  show ?case
  proof (cases "find_student_assignment t a x \<noteq> None")
    case True
    with 2 show ?thesis by simp
  next
    case absent: False
    show ?thesis
    proof (cases "\<not> assignment_exists t a \<or> \<not> user_exists t x")
      case True
      with absent 2 show ?thesis by auto
    next
      case False
      let ?t1 = "t\<lparr>student_assignments := student_assignments t @
                  [\<lparr>sa_id = sq, sa_assignmentId = a, sa_studentId = x,
                    sa_statusId = SubmissionStatus_PENDING\<rparr>]\<rparr>"
      from False absent 2 have rec: "insert_student_assignments a ss ?t1 (sq + 1) = (r, t', sq')"
        by simp
      from "2.IH"(2)[OF absent False rec]
      have ih: "status_of t' b s = status_of ?t1 b s
                \<or> (status_of ?t1 b s = None \<and> status_of t' b s = Some SubmissionStatus_PENDING)" .
      have step: "status_of ?t1 b s = status_of t b s
                \<or> (status_of t b s = None \<and> status_of ?t1 b s = Some SubmissionStatus_PENDING)"
        by (auto simp: status_of_def find_student_assignment_def find_snoc split: option.splits)
      from ih step show ?thesis by auto
    qed
  qed
qed

lemma insert_student_assignments_assignments:
  "insert_student_assignments a ss t sq = (r, t', sq') \<Longrightarrow> assignments t' = assignments t"
  by (induction a ss t sq rule: insert_student_assignments.induct) (auto split: if_splits)

lemma insert_student_assignments_keeps:
  assumes "insert_student_assignments a ss t sq = (r, t', sq')"
    and "find_student_assignment t b s \<noteq> None"
  shows "find_student_assignment t' b s \<noteq> None"
  using insert_student_assignments_status[OF assms(1), of b s] assms(2)
  by (auto simp: status_of_def)

lemma insert_student_assignments_mapped:
  "insert_student_assignments a ss t sq = (None, t', sq') \<Longrightarrow> s \<in> set ss \<Longrightarrow>
     find_student_assignment t' a s \<noteq> None"
proof (induction a ss t sq rule: insert_student_assignments.induct)
  case (1 a t sq)
  then show ?case by simp
next
  case (2 a x ss t sq)
  show ?case
  proof (cases "find_student_assignment t a x \<noteq> None")
    case True
    with "2.prems" have rec: "insert_student_assignments a ss t (sq + 1) = (None, t', sq')" by simp
    show ?thesis
    proof (cases "s = x")
      case True
      with \<open>find_student_assignment t a x \<noteq> None\<close> insert_student_assignments_keeps[OF rec]
      show ?thesis by blast
    next
      case False
      with "2.prems" have "s \<in> set ss" by simp
      from "2.IH"(1)[OF True rec this] show ?thesis .
    qed
  next
    case absent: False
    with "2.prems" have ok: "\<not> (\<not> assignment_exists t a \<or> \<not> user_exists t x)"
      by (auto split: if_splits)
    let ?t1 = "t\<lparr>student_assignments := student_assignments t @
                  [\<lparr>sa_id = sq, sa_assignmentId = a, sa_studentId = x,
                    sa_statusId = SubmissionStatus_PENDING\<rparr>]\<rparr>"
    from absent ok "2.prems" have rec: "insert_student_assignments a ss ?t1 (sq + 1) = (None, t', sq')"
      by simp
    show ?thesis
    proof (cases "s = x")
      case True
      have "find_student_assignment ?t1 a x \<noteq> None"
        by (auto simp: find_student_assignment_def find_snoc split: option.splits)
      with True insert_student_assignments_keeps[OF rec] show ?thesis by blast
    next
      case False
      with "2.prems" have "s \<in> set ss" by simp
      from "2.IH"(2)[OF absent ok rec this] show ?thesis .
    qed
  qed
qed

lemma status_consistent_fanout:
  assumes "status_consistent t"
    and "submissions t' = submissions t"
    and "\<And>b s. status_of t' b s = status_of t b s
     \<or> (status_of t b s = None \<and> status_of t' b s = Some SubmissionStatus_PENDING)"
  shows "status_consistent t'"
  unfolding status_consistent_def
proof (intro allI)
  fix b s
  have sub: "find_submission t' b s = find_submission t b s"
    using assms(2) by (simp add: find_submission_def)
  from assms(1) have c: "(status_of t b s = Some SubmissionStatus_SUBMITTED) = (find_submission t b s \<noteq> None)"
    by (simp add: status_consistent_def)
  from assms(3)[of b s] show "(status_of t' b s = Some SubmissionStatus_SUBMITTED) = (find_submission t' b s \<noteq> None)"
    using c sub status_ne by auto
qed

lemma status_consistent_assignments_update:
  "status_consistent (t\<lparr>assignments := xs\<rparr>) = status_consistent t"
  by (simp add: status_consistent_def status_of_def find_student_assignment_def find_submission_def)

lemma status_consistent_submit:
  assumes "status_consistent t"
    and "find_student_assignment t a s \<noteq> None"
  shows "status_consistent (t\<lparr>submissions := submissions t @ [\<lparr>sub_id = i, sub_assignmentId = a,
                      sub_studentId = s, sub_s3Url = url, sub_submittedAt = ts\<rparr>],
            student_assignments := map (set_submitted a s) (student_assignments t)\<rparr>)"
  unfolding status_consistent_def
proof (intro allI)
  fix b x
  let ?t' = "t\<lparr>submissions := submissions t @ [\<lparr>sub_id = i, sub_assignmentId = a,
                      sub_studentId = s, sub_s3Url = url, sub_submittedAt = ts\<rparr>],
            student_assignments := map (set_submitted a s) (student_assignments t)\<rparr>"
  have key: "\<And>r. (sa_assignmentId (set_submitted a s r) = b \<and> sa_studentId (set_submitted a s r) = x)
                  = (sa_assignmentId r = b \<and> sa_studentId r = x)"
    by (simp add: set_submitted_def)
  have st: "status_of ?t' b x = map_option (\<lambda>r. sa_statusId (set_submitted a s r)) (find_student_assignment t b x)"
    using find_map_key[of "\<lambda>r. sa_assignmentId r = b \<and> sa_studentId r = x" "set_submitted a s", OF key]
    by (simp add: status_of_def find_student_assignment_def option.map_comp comp_def)
  have sb: "(find_submission ?t' b x \<noteq> None) = (find_submission t b x \<noteq> None \<or> (b = a \<and> x = s))"
    by (auto simp: find_submission_def find_snoc split: option.splits)
  from assms(1) have c: "(status_of t b x = Some SubmissionStatus_SUBMITTED) = (find_submission t b x \<noteq> None)"
    by (simp add: status_consistent_def)
  show "(status_of ?t' b x = Some SubmissionStatus_SUBMITTED) = (find_submission ?t' b x \<noteq> None)"
  proof (cases "b = a \<and> x = s")
    case True
    from assms(2) obtain r where r: "find_student_assignment t a s = Some r" by auto
    then have "sa_assignmentId r = a \<and> sa_studentId r = s"
      by (auto simp: find_student_assignment_def find_Some_iff)
    then have "sa_statusId (set_submitted a s r) = SubmissionStatus_SUBMITTED"
      by (simp add: set_submitted_def)
    with True r st sb show ?thesis by simp
  next
    case False
    have "status_of ?t' b x = status_of t b x"
    proof (cases "find_student_assignment t b x")
      case None
      then show ?thesis using st by (simp add: status_of_def)
    next
      case (Some r)
      then have "sa_assignmentId r = b \<and> sa_studentId r = x"
        by (auto simp: find_student_assignment_def find_Some_iff)
      with False Some st show ?thesis by (auto simp: status_of_def set_submitted_def)
    qed
    with False sb c show ?thesis by auto
  qed
qed

lemma status_consistent_delete:
  assumes "status_consistent t"
  shows "status_consistent (delete_cascade i t)"
proof (cases "assignment_exists t i")
  case False
  with assms show ?thesis by (simp add: delete_cascade_def)
next
  case True
  have sa: "\<And>b s. status_of (delete_cascade i t) b s = (if b = i then None else status_of t b s)"
    using True
    by (auto simp: delete_cascade_def status_of_def find_student_assignment_def find_filter_key find_None_iff
             intro: arg_cong[where f="map_option sa_statusId"] find_cong)
  have sb: "\<And>b s. find_submission (delete_cascade i t) b s = (if b = i then None else find_submission t b s)"
    using True
    by (auto simp: delete_cascade_def find_submission_def find_filter_key find_None_iff intro: find_cong)
  from assms show ?thesis
    unfolding status_consistent_def sa sb by auto
qed

lemma those_integers: "those xs = Some ys \<Longrightarrow> integers xs = ys"
  by (induction xs arbitrary: ys) (auto split: option.splits)

lemma map_Number_requested: "map_Number v = Inr xs \<Longrightarrow> requested_ids v = integers xs"
  by (induction v rule: map_Number.induct) auto

lemma not_has_length_requested: "\<not> has_length v \<Longrightarrow> requested_ids v = []"
  by (cases v) auto

section \<open>Lemmas on the submission workflow\<close>

lemma addSubmission_try_success:
  assumes "addSubmission_try a s url env w = (Inr sub, w')" and "txn w = Some t"
  shows "committed w' = t\<lparr>submissions := submissions t @ [sub],
            student_assignments := map (set_submitted a s) (student_assignments t)\<rparr>
         \<and> txn w' = None \<and> sub_assignmentId sub = a \<and> sub_studentId sub = s
         \<and> sub_s3Url sub = url \<and> find_submission t a s = None \<and> s3 w' = s3 w \<and> outbox w' = outbox w"
  using assms
  unfolding addSubmission_try_def saveSubmission_def updateStudentAssignmentStatus_def commitTransaction_def
  by (auto simp: Let_def split: if_splits)

lemma addSubmission_try_failure:
  assumes "addSubmission_try a s url env w = (Inl e, w')"
  shows "committed w' = committed w \<and> s3 w' = s3 w \<and> outbox w' = outbox w"
  using assms
  unfolding addSubmission_try_def saveSubmission_def updateStudentAssignmentStatus_def commitTransaction_def
  by (auto simp: Let_def split: if_splits option.splits)

lemma rollback_and_rethrow_result:
  "rollback_and_rethrow e env w = (r, w') \<Longrightarrow>
     (\<exists>e'. r = Inl e') \<and> committed w' = committed w \<and> s3 w' = s3 w \<and> outbox w' = outbox w
     \<and> (\<not> fails env ''ROLLBACK'' \<longrightarrow> txn w' = None \<and> r = Inl e)"
  unfolding rollback_and_rethrow_def rollbackTransaction_def
  by (auto split: if_splits)

lemma addSubmission_success:
  assumes "addSubmission d env w = (Inr sub, w')"
  shows "\<exists>user. getUserByUsername (sd_studentUsername d) env w = Inr user
           \<and> u_roleId user = Roles_STUDENT
           \<and> find_student_assignment (committed w) (sd_assignmentId d) (u_id user) \<noteq> None
           \<and> find_submission (committed w) (sd_assignmentId d) (u_id user) = None
           \<and> sd_file d \<noteq> None
           \<and> sub_assignmentId sub = sd_assignmentId d \<and> sub_studentId sub = u_id user
           \<and> committed w' = (committed w)\<lparr>submissions := submissions (committed w) @ [sub],
                student_assignments := map (set_submitted (sd_assignmentId d) (u_id user))
                                           (student_assignments (committed w))\<rparr>"
proof -
  from assms obtain user where u: "getUserByUsername (sd_studentUsername d) env w = Inr user"
    by (auto simp: addSubmission_def split: sum.splits)
  from assms u have role: "u_roleId user = Roles_STUDENT"
    by (auto simp: addSubmission_def split: if_splits)
  from assms u role obtain sa where sa: "getStudentAssignment (sd_assignmentId d) (u_id user) env w = Inr (Some sa)"
    by (auto simp: addSubmission_def split: sum.splits option.splits)
  from assms u role sa obtain f where f: "sd_file d = Some f"
    by (auto simp: addSubmission_def split: option.splits)
  let ?key = "uuid env @ ''-'' @ originalname f"
  from assms u role sa f obtain w1 where put: "S3_send_PutObject ?key env w = (Inr (), w1)"
    by (auto simp: addSubmission_def Let_def split: sum.splits prod.splits)
  from assms u role sa f put obtain w2 where beg: "beginTransaction env w1 = (Inr (), w2)"
    by (auto simp: addSubmission_def Let_def split: sum.splits prod.splits)
  from assms u role sa f put beg
  have body: "addSubmission_try (sd_assignmentId d) (u_id user) (s3_object_url env ?key) env w2 = (Inr sub, w')"
    by (auto simp: addSubmission_def Let_def split: sum.splits prod.splits dest: rollback_and_rethrow_result)
  from put have c1: "committed w1 = committed w"
    by (auto simp: S3_send_PutObject_def split: if_splits)
  from beg c1 have t2: "txn w2 = Some (committed w)"
    by (auto simp: beginTransaction_def split: if_splits)
  from sa have ex: "find_student_assignment (committed w) (sd_assignmentId d) (u_id user) \<noteq> None"
    by (auto simp: getStudentAssignment_def split: if_splits)
  from addSubmission_try_success[OF body t2] u role ex f show ?thesis by auto
qed

lemma addSubmission_failure:
  assumes "addSubmission d env w = (Inl e, w')"
  shows "committed w' = committed w \<and> outbox w' = outbox w
         \<and> (\<not> fails env ''ROLLBACK'' \<longrightarrow> txn w = None \<longrightarrow> txn w' = None)"
  using assms
  unfolding addSubmission_def
  by (auto simp: Let_def S3_send_PutObject_def beginTransaction_def
           split: sum.splits option.splits if_splits prod.splits
           dest!: rollback_and_rethrow_result addSubmission_try_failure)


section \<open>Lemmas on the creation workflow\<close>

lemma fanout_related_refl: "fanout_related t t"
  by (simp add: fanout_related_def)

lemma fanout_related_assignments: "fanout_related t (t\<lparr>assignments := xs\<rparr>)"
  by (simp add: fanout_related_def status_of_def find_student_assignment_def)

lemma fanout_related_trans: "fanout_related t t1 \<Longrightarrow> fanout_related t1 t2 \<Longrightarrow> fanout_related t t2"
  unfolding fanout_related_def by (metis (no_types, lifting))

lemma fanout_related_insert:
  "insert_student_assignments a ss t sq = (r, t', sq') \<Longrightarrow> fanout_related t t'"
  unfolding fanout_related_def
  using insert_student_assignments_submissions insert_student_assignments_status by blast

lemma status_consistent_related:
  "status_consistent t \<Longrightarrow> fanout_related t t' \<Longrightarrow> status_consistent t'"
  using status_consistent_fanout[of t t'] by (auto simp: fanout_related_def)

lemma saveAssignment_txn:
  assumes "saveAssignment d url uid env w = (r, w')" and "txn w = Some t"
  shows "committed w' = committed w \<and> s3 w' = s3 w \<and> outbox w' = outbox w
         \<and> (\<exists>t'. txn w' = Some t' \<and> fanout_related t t'
                \<and> (\<forall>a. r = Inr a \<longrightarrow> assignments t' = assignments t @ [a]))"
  using assms unfolding saveAssignment_def
  by (auto simp: Let_def fanout_related_refl fanout_related_assignments split: if_splits)

lemma saveStudentAssignments_txn:
  assumes "saveStudentAssignments a v env w = (r, w')" and "txn w = Some t"
  shows "committed w' = committed w \<and> s3 w' = s3 w \<and> outbox w' = outbox w
         \<and> (\<exists>t'. txn w' = Some t' \<and> fanout_related t t' \<and> assignments t' = assignments t
                \<and> (\<forall>u. r = Inr u \<longrightarrow>
                      (\<forall>s\<in>set (requested_ids v). find_student_assignment t' a s \<noteq> None)
                      \<and> (\<exists>ids. ids \<noteq> [] \<and> map_Number v = Inr (map Some ids))))"
proof (cases "map_Number v")
  case (Inl e)
  with assms show ?thesis
    by (auto simp: saveStudentAssignments_def fanout_related_refl)
next
  case (Inr numbers)
  note req = map_Number_requested[OF Inr]
  show ?thesis
  proof (cases "fails env ''saveStudentAssignments'' \<or> numbers = []")
    case True
    with assms Inr show ?thesis
      by (auto simp: saveStudentAssignments_def fanout_related_refl split: if_splits)
  next
    case sent: False
    show ?thesis
    proof (cases "those numbers")
      case None
      with assms Inr sent show ?thesis
        by (auto simp: saveStudentAssignments_def fanout_related_refl)
    next
      case (Some ids)
      from those_integers[OF Some] req have ids: "requested_ids v = ids" by simp
      from Some have shape: "numbers = map Some ids"
        by (induction numbers arbitrary: ids) (auto split: option.splits)
      with sent have ne: "ids \<noteq> []" by auto
      obtain e t' sq where ins:
        "insert_student_assignments a ids t (seq_student_assignments w) = (e, t', sq)"
        by (cases "insert_student_assignments a ids t (seq_student_assignments w)") auto
      from assms Inr sent Some ins
      have w': "w' = w\<lparr>txn := Some t', seq_student_assignments := sq\<rparr>"
        and res: "r = (case e of None \<Rightarrow> Inr () | Some x \<Rightarrow> Inl (DbError x))"
        by (auto simp: saveStudentAssignments_def split: option.splits)
      have mapped: "\<forall>s\<in>set ids. find_student_assignment t' a s \<noteq> None" if "e = None"
        using insert_student_assignments_mapped ins that by blast
      from fanout_related_insert[OF ins] insert_student_assignments_assignments[OF ins]
           w' res mapped ids ne shape Inr
      show ?thesis by (auto split: option.splits)
    qed
  qed
qed

lemma createAssignment_try_success:
  assumes "createAssignment_try d url uid env w = (Inr a, w')" and "txn w = Some t"
  shows "fanout_related t (committed w') \<and> txn w' = None \<and> s3 w' = s3 w \<and> outbox w' = outbox w
         \<and> assignments (committed w') = assignments t @ [a]
         \<and> (\<forall>s\<in>set (requested_ids (car_studentIds d)).
                find_student_assignment (committed w') (a_id a) s \<noteq> None)
         \<and> (has_length (car_studentIds d) \<longrightarrow>
                (\<exists>ids. ids \<noteq> [] \<and> map_Number (car_studentIds d) = Inr (map Some ids)))"
proof -
  from assms(1) obtain w1 where s1: "saveAssignment d url uid env w = (Inr a, w1)"
    by (auto simp: createAssignment_try_def split: prod.splits sum.splits)
  from saveAssignment_txn[OF s1 assms(2)] obtain t1 where
    t1: "txn w1 = Some t1" "fanout_related t t1" "s3 w1 = s3 w" "outbox w1 = outbox w"
        "assignments t1 = assignments t @ [a]" by auto
  let ?fan = "if has_length (car_studentIds d)
              then saveStudentAssignments (a_id a) (car_studentIds d) env w1 else (Inr (), w1)"
  from assms(1) s1 obtain w2 where s2: "?fan = (Inr (), w2)"
    by (auto simp: createAssignment_try_def split: prod.splits sum.splits)
  have "\<exists>t2. txn w2 = Some t2 \<and> fanout_related t1 t2 \<and> s3 w2 = s3 w1 \<and> outbox w2 = outbox w1
             \<and> assignments t2 = assignments t1
             \<and> (\<forall>s\<in>set (requested_ids (car_studentIds d)).
                    find_student_assignment t2 (a_id a) s \<noteq> None)
             \<and> (has_length (car_studentIds d) \<longrightarrow>
                    (\<exists>ids. ids \<noteq> [] \<and> map_Number (car_studentIds d) = Inr (map Some ids)))"
  proof (cases "has_length (car_studentIds d)")
    case True
    with s2 have "saveStudentAssignments (a_id a) (car_studentIds d) env w1 = (Inr (), w2)" by simp
    from saveStudentAssignments_txn[OF this t1(1)] show ?thesis by auto
  next
    case False
    with s2 t1 show ?thesis by (auto simp: fanout_related_refl not_has_length_requested)
  qed
  then obtain t2 where t2: "txn w2 = Some t2" "fanout_related t1 t2" "s3 w2 = s3 w1"
      "outbox w2 = outbox w1" "assignments t2 = assignments t1"
      "\<forall>s\<in>set (requested_ids (car_studentIds d)).
         find_student_assignment t2 (a_id a) s \<noteq> None"
      "has_length (car_studentIds d) \<longrightarrow>
         (\<exists>ids. ids \<noteq> [] \<and> map_Number (car_studentIds d) = Inr (map Some ids))"
    by auto
  from assms(1) s1 s2 have c: "commitTransaction env w2 = (Inr (), w')"
    by (auto simp: createAssignment_try_def split: prod.splits sum.splits)
  with t2 have "committed w' = t2 \<and> txn w' = None \<and> s3 w' = s3 w2 \<and> outbox w' = outbox w2"
    by (auto simp: commitTransaction_def split: if_splits)
  with t1 t2 show ?thesis using fanout_related_trans by auto
qed

lemma createAssignment_try_failure:
  assumes "createAssignment_try d url uid env w = (Inl e, w')" and "txn w = Some t"
  shows "committed w' = committed w \<and> s3 w' = s3 w \<and> outbox w' = outbox w"
proof -
  obtain r1 w1 where s1: "saveAssignment d url uid env w = (r1, w1)" by force
  from saveAssignment_txn[OF s1 assms(2)] obtain t1 where
    t1: "txn w1 = Some t1" "committed w1 = committed w" "s3 w1 = s3 w" "outbox w1 = outbox w" by auto
  show ?thesis
  proof (cases r1)
    case (Inl e1)
    with assms(1) s1 t1 show ?thesis by (auto simp: createAssignment_try_def)
  next
    case (Inr a)
    let ?fan = "if has_length (car_studentIds d)
              then saveStudentAssignments (a_id a) (car_studentIds d) env w1 else (Inr (), w1)"
    obtain r2 w2 where s2: "?fan = (r2, w2)" by force
    have k2: "committed w2 = committed w1 \<and> s3 w2 = s3 w1 \<and> outbox w2 = outbox w1"
    proof (cases "has_length (car_studentIds d)")
      case True
      with s2 have "saveStudentAssignments (a_id a) (car_studentIds d) env w1 = (r2, w2)" by simp
      from saveStudentAssignments_txn[OF this t1(1)] show ?thesis by auto
    next
      case False
      with s2 show ?thesis by auto
    qed
    show ?thesis
    proof (cases r2)
      case (Inl e2)
      with assms(1) s1 Inr s2 k2 t1 show ?thesis
        by (auto simp: createAssignment_try_def split: prod.splits sum.splits)
    next
      case r2: (Inr u)
      with assms(1) s1 Inr s2 have "commitTransaction env w2 = (Inl e, w')"
        by (auto simp: createAssignment_try_def split: prod.splits sum.splits)
      then have "w' = w2" by (auto simp: commitTransaction_def split: if_splits option.splits)
      with k2 t1 show ?thesis by simp
    qed
  qed
qed

lemma createAssignment_success:
  assumes "createAssignment d env w = (Inr a, w')"
  shows "fanout_related (committed w) (committed w') \<and> outbox w' = outbox w
         \<and> assignments (committed w') = assignments (committed w) @ [a]
         \<and> (\<forall>s\<in>set (requested_ids (car_studentIds d)).
                find_student_assignment (committed w') (a_id a) s \<noteq> None)
         \<and> (has_length (car_studentIds d) \<longrightarrow>
                (\<exists>ids. ids \<noteq> [] \<and> map_Number (car_studentIds d) = Inr (map Some ids)))"
proof -
  from assms obtain user where u: "getUserByUsername (car_username d) env w = Inr user"
    by (auto simp: createAssignment_def split: sum.splits)
  from assms u have role: "u_roleId user = Roles_TUTOR"
    by (auto simp: createAssignment_def split: if_splits)
  let ?key = "uuid env @ ''-'' @ originalname (car_file d)"
  from assms u role obtain w1 where put: "S3_send_PutObject ?key env w = (Inr (), w1)"
    by (auto simp: createAssignment_def Let_def split: sum.splits prod.splits)
  from assms u role put obtain w2 where beg: "beginTransaction env w1 = (Inr (), w2)"
    by (auto simp: createAssignment_def Let_def split: sum.splits prod.splits)
  from assms u role put beg
  have body: "createAssignment_try d (s3_object_url env ?key) (u_id user) env w2 = (Inr a, w')"
    by (auto simp: createAssignment_def Let_def split: sum.splits prod.splits dest: rollback_and_rethrow_result)
  from put have c1: "committed w1 = committed w" "outbox w1 = outbox w"
    by (auto simp: S3_send_PutObject_def split: if_splits)
  from beg c1 have t2: "txn w2 = Some (committed w)" "outbox w2 = outbox w"
    by (auto simp: beginTransaction_def split: if_splits)
  from createAssignment_try_success[OF body t2(1)] t2 show ?thesis by auto
qed

lemma createAssignment_failure:
  assumes "createAssignment d env w = (Inl e, w')"
  shows "committed w' = committed w \<and> outbox w' = outbox w
         \<and> (\<not> fails env ''ROLLBACK'' \<longrightarrow> txn w = None \<longrightarrow> txn w' = None)"
proof (cases "getUserByUsername (car_username d) env w")
  case (Inl e1)
  with assms show ?thesis by (auto simp: createAssignment_def)
next
  case (Inr user)
  show ?thesis
  proof (cases "u_roleId user \<noteq> Roles_TUTOR")
    case True
    with assms Inr show ?thesis by (auto simp: createAssignment_def)
  next
    case False
    let ?key = "uuid env @ ''-'' @ originalname (car_file d)"
    obtain r1 w1 where put: "S3_send_PutObject ?key env w = (r1, w1)" by force
    then have c1: "committed w1 = committed w" "outbox w1 = outbox w" "txn w1 = txn w"
      by (auto simp: S3_send_PutObject_def split: if_splits)
    show ?thesis
    proof (cases r1)
      case (Inl e1)
      with assms Inr False put c1 show ?thesis by (auto simp: createAssignment_def Let_def)
    next
      case r1: (Inr x)
      obtain r2 w2 where beg: "beginTransaction env w1 = (r2, w2)" by force
      show ?thesis
      proof (cases r2)
        case (Inl e2)
        with beg have "w2 = w1" by (auto simp: beginTransaction_def split: if_splits)
        with assms Inr False put r1 beg Inl c1 show ?thesis by (auto simp: createAssignment_def Let_def)
      next
        case r2: (Inr y)
        with beg c1 have t2: "txn w2 = Some (committed w)" "committed w2 = committed w" "outbox w2 = outbox w"
          by (auto simp: beginTransaction_def split: if_splits)
        obtain r3 w3 where body: "createAssignment_try d (s3_object_url env ?key) (u_id user) env w2 = (r3, w3)"
          by force
        show ?thesis
        proof (cases r3)
          case (Inl e3)
          from createAssignment_try_failure[OF body[unfolded Inl] t2(1)] t2
          have k3: "committed w3 = committed w" "outbox w3 = outbox w" by auto
          from assms Inr False put r1 beg r2 body Inl
          have "(rollback_and_rethrow e3 env w3 :: (error + assignment) \<times> world) = (Inl e, w')"
            by (auto simp: createAssignment_def Let_def)
          from rollback_and_rethrow_result[OF this] k3 show ?thesis by auto
        next
          case (Inr a)
          with assms \<open>getUserByUsername (car_username d) env w = Inr user\<close> False put r1 beg r2 body
          show ?thesis by (auto simp: createAssignment_def Let_def)
        qed
      qed
    qed
  qed
qed

section \<open>Lemmas on the other operations and on sequences\<close>

lemma AssignmentDAO_updateAssignment_committed:
  "AssignmentDAO_updateAssignment i ud env w = (r, w') \<Longrightarrow>
     \<exists>xs. committed w' = (committed w)\<lparr>assignments := xs\<rparr>"
  unfolding AssignmentDAO_updateAssignment_def
  by (auto simp: Let_def split: if_splits intro: exI[of _ "assignments (committed w)"])

lemma S3_send_PutObject_committed:
  "S3_send_PutObject k env w = (r, w') \<Longrightarrow> committed w' = committed w \<and> txn w' = txn w \<and> outbox w' = outbox w"
  by (auto simp: S3_send_PutObject_def split: if_splits)

lemma S3_send_DeleteObject_committed:
  "S3_send_DeleteObject k env w = (r, w') \<Longrightarrow> committed w' = committed w \<and> txn w' = txn w \<and> outbox w' = outbox w"
  by (auto simp: S3_send_DeleteObject_def split: if_splits)

lemma updateAssignment_committed:
  assumes "updateAssignment i ud env w = (r, w')"
  shows "\<exists>xs. committed w' = (committed w)\<lparr>assignments := xs\<rparr>"
proof -
  have same: "\<exists>xs. committed w = (committed w)\<lparr>assignments := xs\<rparr>"
    by (rule exI[of _ "assignments (committed w)"]) simp
  show ?thesis
    using assms same
    unfolding updateAssignment_def
    by (auto simp: Let_def split: sum.splits if_splits option.splits prod.splits
             dest!: AssignmentDAO_updateAssignment_committed S3_send_PutObject_committed)
qed

lemma AssignmentDAO_deleteAssignment_committed:
  "AssignmentDAO_deleteAssignment i env w = (r, w') \<Longrightarrow>
     committed w' = committed w \<or> committed w' = delete_cascade i (committed w)"
  by (auto simp: AssignmentDAO_deleteAssignment_def split: if_splits)

lemma deleteAssignment_committed:
  assumes "deleteAssignment i u env w = (r, w')"
  shows "committed w' = committed w \<or> committed w' = delete_cascade i (committed w)"
  using assms unfolding deleteAssignment_def
  by (auto simp: Let_def split: sum.splits if_splits option.splits prod.splits
           dest!: AssignmentDAO_deleteAssignment_committed S3_send_DeleteObject_committed)

lemma sendNotifications_committed:
  "sendNotifications rs env w = (ls, w') \<Longrightarrow> committed w' = committed w \<and> txn w' = txn w"
proof (induction rs arbitrary: w ls w')
  case Nil
  then show ?case by simp
next
  case (Cons r rs)
  obtain res w1 where m: "sendMail (mailOptions env r) env w = (res, w1)" by force
  then have k: "committed w1 = committed w \<and> txn w1 = txn w"
    by (auto simp: sendMail_def split: if_splits)
  obtain ls2 w2 where rest: "sendNotifications rs env w1 = (ls2, w2)" by force
  from Cons.prems m rest have "w' = w2"
    by (cases res) auto
  with Cons.IH[OF rest] k show ?case by simp
qed

lemma notifyUpcomingAssignments_committed:
  "committed (snd (notifyUpcomingAssignments env w)) = committed w"
  by (cases "sendNotifications (case fetchUpcomingAssignments env w of Inr rows \<Rightarrow> rows | Inl e \<Rightarrow> []) env w")
     (auto simp: notifyUpcomingAssignments_def split: sum.splits dest: sendNotifications_committed)

lemma serve_status_consistent:
  assumes "status_consistent (committed w)"
  shows "status_consistent (committed (serve r env w))"
proof (cases r)
  case (CreateAssignment d)
  obtain res w' where c: "createAssignment d env w = (res, w')" by force
  show ?thesis
  proof (cases res)
    case (Inl e)
    with c createAssignment_failure[of d env w e w'] assms CreateAssignment show ?thesis by simp
  next
    case (Inr a)
    with c createAssignment_success[of d env w a w'] assms CreateAssignment show ?thesis
      by (auto intro: status_consistent_related)
  qed
next
  case (UpdateAssignment i d)
  obtain res w' where c: "updateAssignment i d env w = (res, w')" by force
  from updateAssignment_committed[OF c] assms c UpdateAssignment show ?thesis
    by (auto simp: status_consistent_assignments_update)
next
  case (DeleteAssignment i u)
  obtain res w' where c: "deleteAssignment i u env w = (res, w')" by force
  from deleteAssignment_committed[OF c] assms c DeleteAssignment show ?thesis
    by (auto simp: status_consistent_delete)
next
  case (AddSubmission d)
  obtain res w' where c: "addSubmission d env w = (res, w')" by force
  show ?thesis
  proof (cases res)
    case (Inl e)
    with c addSubmission_failure[of d env w e w'] assms AddSubmission show ?thesis by simp
  next
    case (Inr sub)
    with c have "addSubmission d env w = (Inr sub, w')" by simp
    from addSubmission_success[OF this] obtain user :: user where
      u: "find_student_assignment (committed w) (sd_assignmentId d) (u_id user) \<noteq> None"
         "sub_assignmentId sub = sd_assignmentId d" "sub_studentId sub = u_id user"
         "committed w' = (committed w)\<lparr>submissions := submissions (committed w) @ [sub],
                student_assignments := map (set_submitted (sd_assignmentId d) (u_id user))
                                           (student_assignments (committed w))\<rparr>"
      by blast
    have "sub = \<lparr>sub_id = sub_id sub, sub_assignmentId = sd_assignmentId d,
                      sub_studentId = u_id user, sub_s3Url = sub_s3Url sub, sub_submittedAt = sub_submittedAt sub\<rparr>"
      using u(2,3) by simp
    with status_consistent_submit[OF assms u(1), of "sub_id sub" "sub_s3Url sub" "sub_submittedAt sub"] u(4)
    have "status_consistent (committed w')" by simp
    with c AddSubmission show ?thesis by simp
  qed
next
  case NotificationTick
  with assms show ?thesis by (simp add: notifyUpcomingAssignments_committed)
qed

section \<open>The example state, evaluated\<close>

lemma demo_user_sue: "getUserByUsername ''sue'' demo_env demo_world = Inr sue"
  by (simp add: getUserByUsername_def demo_env_def demo_world_def demo_tables_def
        tina_def sam_def sue_def tom_def)

lemma demo_user_sam: "getUserByUsername ''sam'' demo_env demo_world = Inr sam"
  by (simp add: getUserByUsername_def demo_env_def demo_world_def demo_tables_def
        tina_def sam_def sue_def tom_def)

lemma demo_user_tina: "getUserByUsername ''tina'' demo_env demo_world = Inr tina"
  by (simp add: getUserByUsername_def demo_env_def demo_world_def demo_tables_def
        tina_def sam_def sue_def tom_def)

lemma demo_user_tom: "getUserByUsername ''tom'' demo_env demo_world = Inr tom"
  by (simp add: getUserByUsername_def demo_env_def demo_world_def demo_tables_def
        tina_def sam_def sue_def tom_def)

lemmas demo_defs = demo_env_def demo_world_def demo_tables_def tina_def sam_def sue_def tom_def
  hw1_def hw2_def demo_file_def demo_submission_def demo_submitted_def demo_world_submitted_def
  sam_submits_def tina_creates_def demo_env_bucket_down_def demo_env_sam_bounces_def
  demo_world_two_def retitle_def empty_update_def hw_soon_def sam_hw1_def demo_world_soon_def
  Roles_TUTOR_def Roles_STUDENT_def
  SubmissionStatus_PENDING_def SubmissionStatus_SUBMITTED_def

lemmas workflow_defs = addSubmission_def addSubmission_try_def createAssignment_def
  createAssignment_try_def rollback_and_rethrow_def saveSubmission_def
  updateStudentAssignmentStatus_def getStudentAssignment_def beginTransaction_def
  commitTransaction_def rollbackTransaction_def S3_send_PutObject_def S3_send_DeleteObject_def
  saveAssignment_def saveStudentAssignments_def getUserByUsername_def getAssignmentById_def
  find_student_assignment_def find_submission_def user_exists_def assignment_exists_def
  set_submitted_def s3_object_url_def

lemma demo_status_consistent: "status_consistent (committed demo_world)"
  by (simp add: status_consistent_def status_of_def workflow_defs demo_defs)

lemma demo_addSubmission:
  "addSubmission sam_submits demo_env demo_world = (Inr demo_submission, demo_world_submitted)"
  by (simp add: workflow_defs demo_defs Let_def)

section \<open>Submission workflow: authorization before side effects\<close>

text \<open>
  Claim C6. \<^verbatim>\<open>addSubmission\<close> loads the mapping row of (assignmentId, requester) and
  rejects a student without one with status 403 (Forbidden). The check precedes the
  upload: whatever the file and whatever the bucket and the database would have
  answered, the state after the call is the state before it, so nothing was
  uploaded and no submission row was written.
\<close>

theorem addSubmission_unassigned_forbidden:
  assumes "getUserByUsername (sd_studentUsername d) env w = Inr user"
    and "u_roleId user = Roles_STUDENT"
    and "\<not> fails env ''getStudentAssignment''"
    and "find_student_assignment (committed w) (sd_assignmentId d) (u_id user) = None"
  shows "addSubmission d env w =
           (Inl (HttpError 403 ''Student has not been assigned this assignment''), w)"
  using assms by (simp add: addSubmission_def getStudentAssignment_def)

theorem addSubmission_unassigned_forbidden_witness:
  "addSubmission \<lparr>sd_assignmentId = 1, sd_studentUsername = ''sue'', sd_file = Some demo_file\<rparr>
     demo_env demo_world
   = (Inl (HttpError 403 ''Student has not been assigned this assignment''), demo_world)"
  using addSubmission_unassigned_forbidden
          [of "\<lparr>sd_assignmentId = 1, sd_studentUsername = ''sue'', sd_file = Some demo_file\<rparr>"
              demo_env demo_world sue]
        demo_user_sue
  by (simp add: Roles_STUDENT_def find_student_assignment_def demo_env_def demo_world_def
        demo_tables_def sue_def)

text \<open>
  Claim C10. \<^verbatim>\<open>addSubmission\<close> does not check that a file was sent. For a student who
  is mapped to the assignment, a request without a file fails when the storage key
  is built from \<^verbatim>\<open>file.originalname\<close>: the error is the runtime's TypeError, which
  carries no status, and the state is untouched (no upload, no database write).
\<close>

theorem addSubmission_missing_file:
  assumes "getUserByUsername (sd_studentUsername d) env w = Inr user"
    and "u_roleId user = Roles_STUDENT"
    and "\<not> fails env ''getStudentAssignment''"
    and "find_student_assignment (committed w) (sd_assignmentId d) (u_id user) \<noteq> None"
    and "sd_file d = None"
  shows "addSubmission d env w = (Inl TypeError, w) \<and> error_status TypeError = None"
  using assms by (auto simp: addSubmission_def getStudentAssignment_def)

theorem addSubmission_missing_file_witness:
  "addSubmission \<lparr>sd_assignmentId = 1, sd_studentUsername = ''sam'', sd_file = None\<rparr>
     demo_env demo_world = (Inl TypeError, demo_world)"
  using addSubmission_missing_file
          [of "\<lparr>sd_assignmentId = 1, sd_studentUsername = ''sam'', sd_file = None\<rparr>"
              demo_env demo_world sam]
        demo_user_sam
  by (simp add: Roles_STUDENT_def find_student_assignment_def demo_env_def demo_world_def
        demo_tables_def sam_def)

section \<open>Status consistency\<close>

text \<open>
  Claim C1 (invariant I2). For every pair (assignment, student) the recorded status is
  SUBMITTED exactly when a submission row exists for the pair, and this survives any
  sequence of operations: creations, updates, deletions, submissions and scanner
  ticks, each in any environment (any external call may fail). \<^verbatim>\<open>addSubmission\<close>
  writes the row and the status in one transaction, so the committed tables change
  by both writes or by none.
\<close>

theorem status_consistent_run:
  "status_consistent (committed w) \<Longrightarrow> status_consistent (committed (run rs w))"
  by (induction rs arbitrary: w) (auto simp: serve_status_consistent)

theorem status_consistent_run_witness:
  "status_consistent (committed demo_world) \<and>
   status_consistent (committed (run [(AddSubmission sam_submits, demo_env)] demo_world)) \<and>
   find_submission (committed (run [(AddSubmission sam_submits, demo_env)] demo_world)) 1 2
     = Some demo_submission"
  using status_consistent_run [of demo_world "[(AddSubmission sam_submits, demo_env)]"]
        demo_status_consistent
  by (simp add: demo_addSubmission demo_world_submitted_def demo_submitted_def
        demo_submission_def find_submission_def)

section \<open>Atomicity of the transactional units\<close>


lemma demo_fanout_partway:
  "insert_student_assignments 2 [2, 99] (demo_tables\<lparr>assignments := [hw1, hw2]\<rparr>) 2 =
     (Some ForeignKeyViolation,
      demo_tables\<lparr>assignments := [hw1, hw2],
        student_assignments := student_assignments demo_tables @
          [\<lparr>sa_id = 2, sa_assignmentId = 2, sa_studentId = 2, sa_statusId = 2\<rparr>]\<rparr>, 4)"
  by (simp add: workflow_defs demo_defs)






section \<open>At most one submission per pair\<close>

lemma find_filter_nonempty: "filter P xs = y # ys \<Longrightarrow> find P xs \<noteq> None"
  by (metis filter_empty_conv find_None_iff list.distinct(1))

lemma demo_second_submission:
  "addSubmission sam_submits demo_env demo_world_submitted =
     (Inl (DbError UniqueViolation), demo_world_submitted\<lparr>seq_submissions := 3\<rparr>)"
  by (simp add: workflow_defs demo_defs Let_def)

text \<open>
  Claim C3. When the requester's pair already has its submission row, a further
  \<^verbatim>\<open>addSubmission\<close> for the pair never succeeds and leaves the submissions table as it
  was, so the pair still has exactly the one row it had. When the call reaches the
  \<^verbatim>\<open>INSERT\<close> (the requester is a mapped student, a file is sent, and the bucket and
  the database answer), the error is the store's uniqueness violation on
  (assignment_id, student_id): the Conflict of the specification.
\<close>

theorem addSubmission_duplicate_conflict:
  assumes "getUserByUsername (sd_studentUsername d) env w = Inr user"
    and "submissions_of (committed w) (sd_assignmentId d) (u_id user) = [row]"
  shows "(\<exists>e. fst (addSubmission d env w) = Inl e)
     \<and> submissions (committed (snd (addSubmission d env w))) = submissions (committed w)
     \<and> submissions_of (committed (snd (addSubmission d env w))) (sd_assignmentId d) (u_id user) = [row]
     \<and> (u_roleId user = Roles_STUDENT
        \<and> find_student_assignment (committed w) (sd_assignmentId d) (u_id user) \<noteq> None
        \<and> sd_file d \<noteq> None
        \<and> \<not> fails env ''getStudentAssignment'' \<and> \<not> fails env ''PutObject''
        \<and> \<not> fails env ''BEGIN'' \<and> \<not> fails env ''saveSubmission'' \<and> \<not> fails env ''ROLLBACK''
        \<longrightarrow> fst (addSubmission d env w) = Inl (DbError UniqueViolation))"
proof -
  from assms(2) have present: "find_submission (committed w) (sd_assignmentId d) (u_id user) \<noteq> None"
    unfolding submissions_of_def find_submission_def by (rule find_filter_nonempty)
  obtain res w' where r: "addSubmission d env w = (res, w')" by force
  have err: "\<exists>e. res = Inl e"
  proof (cases res)
    case (Inl e)
    then show ?thesis by simp
  next
    case (Inr sub)
    with r addSubmission_success[of d env w sub w'] assms(1) present show ?thesis by auto
  qed
  then obtain e where e: "res = Inl e" by auto
  from addSubmission_failure[OF r[unfolded e]] have same: "committed w' = committed w" by simp
  have conflict: "fst (addSubmission d env w) = Inl (DbError UniqueViolation)"
    if "u_roleId user = Roles_STUDENT"
      and "find_student_assignment (committed w) (sd_assignmentId d) (u_id user) \<noteq> None"
      and "sd_file d \<noteq> None"
      and "\<not> fails env ''getStudentAssignment''" and "\<not> fails env ''PutObject''"
      and "\<not> fails env ''BEGIN''" and "\<not> fails env ''saveSubmission''" and "\<not> fails env ''ROLLBACK''"
    using that assms(1) present
    by (auto simp: addSubmission_def addSubmission_try_def rollback_and_rethrow_def
          saveSubmission_def getStudentAssignment_def beginTransaction_def rollbackTransaction_def
          S3_send_PutObject_def Let_def)
  from r e same assms(2) conflict show ?thesis
    by (auto simp: submissions_of_def)
qed

theorem addSubmission_duplicate_conflict_witness:
  "fst (addSubmission sam_submits demo_env demo_world_submitted) = Inl (DbError UniqueViolation)
   \<and> submissions_of (committed (snd (addSubmission sam_submits demo_env demo_world_submitted))) 1 2
       = [demo_submission]"
  using addSubmission_duplicate_conflict
          [of sam_submits demo_env demo_world_submitted sam demo_submission]
  by (simp add: demo_second_submission)
     (simp add: demo_defs submissions_of_def workflow_defs)

section \<open>Role and ownership gates\<close>

lemmas assignment_service_defs = updateAssignment_def deleteAssignment_def
  AssignmentDAO_updateAssignment_def AssignmentDAO_deleteAssignment_def

lemma demo_tina_deletes:
  "deleteAssignment 1 ''tina'' demo_env demo_world =
     (Inr (), demo_world\<lparr>committed := demo_tables\<lparr>assignments := [], student_assignments := []\<rparr>,
                        s3 := []\<rparr>)"
  by (simp add: assignment_service_defs workflow_defs demo_defs delete_cascade_def last_segment_def)

lemma demo_tina_retitles:
  "updateAssignment 1 (retitle ''tina'') demo_env demo_world =
     (Inr (Some (hw1\<lparr>a_title := ''Homework 1''\<rparr>)),
      demo_world\<lparr>committed := demo_tables\<lparr>assignments := [hw1\<lparr>a_title := ''Homework 1''\<rparr>]\<rparr>\<rparr>)"
  by (simp add: assignment_service_defs workflow_defs demo_defs update_fields_def update_row_def)

text \<open>
  Claim C5. A requester whose role is not TUTOR is refused with status 403
  (Forbidden) by \<^verbatim>\<open>createAssignment\<close>, \<^verbatim>\<open>updateAssignment\<close> and \<^verbatim>\<open>deleteAssignment\<close>,
  with no effect on the state. A tutor who did not create the assignment is refused
  with status 403 by update and delete. The creating tutor passes both checks: no
  error with a status can come out of either call any more.
\<close>

theorem assignment_role_and_ownership_gate:
  assumes "getUserByUsername name env w = Inr user"
    and "car_username d = name" and "ud_username ud = name"
  shows "(u_roleId user \<noteq> Roles_TUTOR \<longrightarrow>
            createAssignment d env w = (Inl (HttpError 403 ''Only TUTORS can create assignments''), w)
          \<and> updateAssignment i ud env w = (Inl (HttpError 403 ''Only TUTORS can update assignments''), w)
          \<and> deleteAssignment i name env w = (Inl (HttpError 403 ''Only TUTORS can delete assignments''), w))
       \<and> (u_roleId user = Roles_TUTOR \<and> getAssignmentById i env w = Inr (Some a)
            \<and> a_tutorId a \<noteq> u_id user \<longrightarrow>
            updateAssignment i ud env w
              = (Inl (HttpError 403 ''You can only update assignments you created''), w)
          \<and> deleteAssignment i name env w
              = (Inl (HttpError 403 ''You can only delete assignments you created''), w))
       \<and> (u_roleId user = Roles_TUTOR \<and> getAssignmentById i env w = Inr (Some a)
            \<and> a_tutorId a = u_id user \<longrightarrow>
            (\<forall>e. fst (updateAssignment i ud env w) = Inl e \<longrightarrow> error_status e = None)
          \<and> (\<forall>e. fst (deleteAssignment i name env w) = Inl e \<longrightarrow> error_status e = None))"
proof (intro conjI impI)
  assume "u_roleId user \<noteq> Roles_TUTOR"
  with assms show
    "createAssignment d env w = (Inl (HttpError 403 ''Only TUTORS can create assignments''), w)"
    "updateAssignment i ud env w = (Inl (HttpError 403 ''Only TUTORS can update assignments''), w)"
    "deleteAssignment i name env w = (Inl (HttpError 403 ''Only TUTORS can delete assignments''), w)"
    by (simp_all add: createAssignment_def updateAssignment_def deleteAssignment_def)
next
  assume "u_roleId user = Roles_TUTOR \<and> getAssignmentById i env w = Inr (Some a)
            \<and> a_tutorId a \<noteq> u_id user"
  with assms show
    "updateAssignment i ud env w
       = (Inl (HttpError 403 ''You can only update assignments you created''), w)"
    "deleteAssignment i name env w
       = (Inl (HttpError 403 ''You can only delete assignments you created''), w)"
    by (simp_all add: updateAssignment_def deleteAssignment_def)
next
  assume own: "u_roleId user = Roles_TUTOR \<and> getAssignmentById i env w = Inr (Some a)
            \<and> a_tutorId a = u_id user"
  with assms show "\<forall>e. fst (updateAssignment i ud env w) = Inl e \<longrightarrow> error_status e = None"
    by (auto simp: assignment_service_defs S3_send_PutObject_def Let_def
             split: option.splits if_splits)
  from own assms show "\<forall>e. fst (deleteAssignment i name env w) = Inl e \<longrightarrow> error_status e = None"
    by (auto simp: assignment_service_defs S3_send_DeleteObject_def Let_def
             split: option.splits if_splits)
qed

theorem assignment_role_and_ownership_gate_witness:
  "createAssignment (tina_creates (IdsArray [Some 2]) \<lparr>car_username := ''sam''\<rparr>) demo_env demo_world
     = (Inl (HttpError 403 ''Only TUTORS can create assignments''), demo_world)
   \<and> updateAssignment 1 (retitle ''sam'') demo_env demo_world
     = (Inl (HttpError 403 ''Only TUTORS can update assignments''), demo_world)
   \<and> deleteAssignment 1 ''sam'' demo_env demo_world
     = (Inl (HttpError 403 ''Only TUTORS can delete assignments''), demo_world)
   \<and> updateAssignment 1 (retitle ''tom'') demo_env demo_world
     = (Inl (HttpError 403 ''You can only update assignments you created''), demo_world)
   \<and> deleteAssignment 1 ''tom'' demo_env demo_world
     = (Inl (HttpError 403 ''You can only delete assignments you created''), demo_world)
   \<and> fst (updateAssignment 1 (retitle ''tina'') demo_env demo_world)
     = Inr (Some (hw1\<lparr>a_title := ''Homework 1''\<rparr>))
   \<and> fst (deleteAssignment 1 ''tina'' demo_env demo_world) = Inr ()"
  using assignment_role_and_ownership_gate
          [of "''sam''" demo_env demo_world sam "tina_creates (IdsArray [Some 2]) \<lparr>car_username := ''sam''\<rparr>"
              "retitle ''sam''" 1 hw1]
        assignment_role_and_ownership_gate
          [of "''tom''" demo_env demo_world tom "tina_creates (IdsArray [Some 2]) \<lparr>car_username := ''tom''\<rparr>"
              "retitle ''tom''" 1 hw1]
        assignment_role_and_ownership_gate
          [of "''tina''" demo_env demo_world tina "tina_creates (IdsArray [Some 2])" "retitle ''tina''" 1 hw1]
        demo_user_sam demo_user_tom demo_user_tina
  by (simp add: demo_tina_deletes demo_tina_retitles)
     (simp add: demo_defs getAssignmentById_def)

section \<open>Deleting an assignment whose file cannot be deleted\<close>

lemma assignment_exists_delete_cascade: "\<not> assignment_exists (delete_cascade i t) i"
  by (auto simp: delete_cascade_def assignment_exists_def find_filter_key find_None_iff)

text \<open>
  Claim C4 as the specification states it: a failure of the blob deletion is logged
  and the row is deleted all the same. The code awaits the deletion outside any
  \<^verbatim>\<open>try\<close>: when the bucket refuses, the error leaves \<^verbatim>\<open>deleteAssignment\<close> and the
  row is still there.
\<close>

theorem deleteAssignment_blob_failure_counterexample:
  "fst (deleteAssignment 1 ''tina'' demo_env_bucket_down demo_world) = Inl S3Error
   \<and> assignment_exists (committed (snd (deleteAssignment 1 ''tina'' demo_env_bucket_down demo_world))) 1"
  by (simp add: assignment_service_defs workflow_defs demo_defs last_segment_def)

text \<open>
  Claim C4, amended. After the role and ownership checks pass, for an assignment
  with a file URL: when the blob deletion fails, the error propagates and nothing is
  deleted (the state is the one before the call); when it succeeds and the
  \<^verbatim>\<open>DELETE\<close> is accepted, the row is gone. The row deletion does not depend on the
  bucket only when the assignment has no file URL.
\<close>

theorem deleteAssignment_blob_failure_blocks:
  assumes "getUserByUsername name env w = Inr user" and "u_roleId user = Roles_TUTOR"
    and "getAssignmentById i env w = Inr (Some a)" and "a_tutorId a = u_id user"
  shows "(truthy_url (a_s3Url a) \<and> fails env ''DeleteObject'' \<longrightarrow>
            deleteAssignment i name env w = (Inl S3Error, w))
       \<and> ((\<not> truthy_url (a_s3Url a) \<or> \<not> fails env ''DeleteObject'')
            \<and> \<not> fails env ''deleteAssignment'' \<longrightarrow>
            fst (deleteAssignment i name env w) = Inr ()
            \<and> committed (snd (deleteAssignment i name env w)) = delete_cascade i (committed w)
            \<and> \<not> assignment_exists (committed (snd (deleteAssignment i name env w))) i)"
  using assms
  by (auto simp: assignment_service_defs S3_send_DeleteObject_def truthy_url_def Let_def
                 assignment_exists_delete_cascade
           split: option.splits)

theorem deleteAssignment_blob_failure_blocks_witness:
  "deleteAssignment 1 ''tina'' demo_env_bucket_down demo_world = (Inl S3Error, demo_world)
   \<and> fst (deleteAssignment 1 ''tina'' demo_env demo_world) = Inr ()
   \<and> \<not> assignment_exists (committed (snd (deleteAssignment 1 ''tina'' demo_env demo_world))) 1"
proof -
  have role: "u_roleId tina = Roles_TUTOR" and own: "a_tutorId hw1 = u_id tina"
    and url: "truthy_url (a_s3Url hw1)"
    by (simp_all add: demo_defs truthy_url_def)
  have u1: "getUserByUsername ''tina'' demo_env_bucket_down demo_world = Inr tina"
    and g1: "getAssignmentById 1 demo_env_bucket_down demo_world = Inr (Some hw1)"
    and f1: "fails demo_env_bucket_down ''DeleteObject''"
    by (simp_all add: demo_defs getUserByUsername_def getAssignmentById_def)
  have g2: "getAssignmentById 1 demo_env demo_world = Inr (Some hw1)"
    and f2: "\<not> fails demo_env ''DeleteObject''" "\<not> fails demo_env ''deleteAssignment''"
    by (simp_all add: demo_defs getAssignmentById_def)
  from deleteAssignment_blob_failure_blocks[OF u1 role g1 own] url f1
  have blocked: "deleteAssignment 1 ''tina'' demo_env_bucket_down demo_world = (Inl S3Error, demo_world)"
    by blast
  from deleteAssignment_blob_failure_blocks[OF demo_user_tina role g2 own] f2
  have deleted: "fst (deleteAssignment 1 ''tina'' demo_env demo_world) = Inr ()
     \<and> \<not> assignment_exists (committed (snd (deleteAssignment 1 ''tina'' demo_env demo_world))) 1"
    by blast
  from blocked deleted show ?thesis by simp
qed

section \<open>Partial update\<close>










section \<open>Listing filters\<close>




section \<open>Deadline scanner\<close>

lemma filter_by_key:
  "distinct (map k xs) \<Longrightarrow>
     filter (\<lambda>x. i = k x) xs = (case find (\<lambda>x. k x = i) xs of None \<Rightarrow> [] | Some x \<Rightarrow> [x])"
proof (induction xs)
  case Nil
  then show ?case by simp
next
  case (Cons x xs)
  show ?case
  proof (cases "k x = i")
    case True
    with Cons.prems have "filter (\<lambda>y. i = k y) xs = []"
      by (auto simp: filter_empty_conv)
    with True show ?thesis by simp
  next
    case False
    with Cons show ?thesis by auto
  qed
qed

lemma upcoming_rows_integrity:
  assumes "referential_integrity t" and "sa \<in> set (student_assignments t)"
  shows "upcoming_rows env t sa = (if reminder_due (now env + 19800000000) t sa then [upcoming_of t sa] else [])"
proof -
  from assms obtain a u where
    a: "find (\<lambda>a. a_id a = sa_assignmentId sa) (assignments t) = Some a"
    and u: "find (\<lambda>u. u_id u = sa_studentId sa) (users t) = Some u"
    by (auto simp: referential_integrity_def list_all_iff assignment_exists_def user_exists_def)
  from assms(1) have da: "distinct (map a_id (assignments t))" and du: "distinct (map u_id (users t))"
    by (simp_all add: referential_integrity_def)
  have fa: "filter (\<lambda>a. sa_assignmentId sa = a_id a) (assignments t) = [a]"
    using filter_by_key[OF da, of "sa_assignmentId sa"] a by simp
  have fu: "filter (\<lambda>u. sa_studentId sa = u_id u) (users t) = [u]"
    using filter_by_key[OF du, of "sa_studentId sa"] u by simp
  have split_filter: "filter (\<lambda>a. sa_assignmentId sa = a_id a \<and> upcoming_clause env a sa) (assignments t)
        = filter (\<lambda>a. upcoming_clause env a sa) (filter (\<lambda>a. sa_assignmentId sa = a_id a) (assignments t))"
    by (simp add: conj_commute)
  show ?thesis
    unfolding upcoming_rows_def split_filter fa fu
    using a u
    by (auto simp: reminder_due_def upcoming_clause_def upcoming_of_def NOW_kolkata_def
          INTERVAL_59_minutes_def INTERVAL_1_hour_def)
qed

lemma concat_map_if: "concat (map (\<lambda>x. if P x then [f x] else []) xs) = map f (filter P xs)"
  by (induction xs) auto

lemma fetchUpcomingAssignments_integrity:
  assumes "referential_integrity (committed w)" and "\<not> fails env ''fetchUpcomingAssignments''"
  shows "fetchUpcomingAssignments env w =
           Inr (map (upcoming_of (committed w))
                  (filter (reminder_due (now env + 19800000000) (committed w)) (student_assignments (committed w))))"
proof -
  have "concat (map (upcoming_rows env (committed w)) (student_assignments (committed w)))
        = concat (map (\<lambda>sa. if reminder_due (now env + 19800000000) (committed w) sa then [upcoming_of (committed w) sa] else [])
            (student_assignments (committed w)))"
    by (rule arg_cong[where f = concat], rule map_cong[OF refl])
       (rule upcoming_rows_integrity[OF assms(1)])
  also have "\<dots> = map (upcoming_of (committed w))
                  (filter (reminder_due (now env + 19800000000) (committed w)) (student_assignments (committed w)))"
    by (rule concat_map_if)
  finally show ?thesis
    using assms(2) by (simp add: fetchUpcomingAssignments_def)
qed

lemma sendNotifications_result:
  "sendNotifications rs env w = (ls, w') \<Longrightarrow>
     notified ls = map student_email rs
     \<and> outbox w' = outbox w @ map (mailOptions env)
                                (filter (\<lambda>r. \<not> mail_fails env (student_email r)) rs)"
proof (induction rs arbitrary: w ls w')
  case Nil
  then show ?case by simp
next
  case (Cons r rs)
  obtain res w1 where m: "sendMail (mailOptions env r) env w = (res, w1)" by force
  obtain ls2 w2 where rest: "sendNotifications rs env w1 = (ls2, w2)" by force
  note ih = Cons.IH[OF rest]
  show ?case
  proof (cases "mail_fails env (student_email r)")
    case True
    with m have "res = Inl MailError" "w1 = w"
      by (auto simp: sendMail_def mailOptions_def)
    with Cons.prems m rest ih True show ?thesis by auto
  next
    case False
    with m have "res = Inr ()" "w1 = w\<lparr>outbox := outbox w @ [mailOptions env r]\<rparr>"
      by (auto simp: sendMail_def mailOptions_def)
    with Cons.prems m rest ih False show ?thesis by auto
  qed
qed

lemma demo_referential_integrity: "referential_integrity (committed demo_world_two)"
  by (simp add: referential_integrity_def assignment_exists_def user_exists_def demo_defs)

lemma demo_soon_tick:
  "notifyUpcomingAssignments demo_env demo_world_soon = ([NoUpcoming], demo_world_soon)"
  by (simp add: notifyUpcomingAssignments_def fetchUpcomingAssignments_def upcoming_rows_def
        upcoming_clause_def NOW_kolkata_def INTERVAL_59_minutes_def INTERVAL_1_hour_def demo_defs)

text \<open>
  Claim C9 as the specification states it: the notifier is invoked for every PENDING
  row whose deadline lies between 59 and 60 minutes after now. With the session in
  UTC, the first student's row is PENDING and its assignment is due 59 minutes and
  30 seconds after the current instant (which is also the store's \<^verbatim>\<open>NOW()\<close>), yet the
  tick finds no row and invokes the notifier for nobody: the query measures the
  window from \<^verbatim>\<open>now() AT TIME ZONE 'asia/kolkata'\<close>, five and a half hours later.
\<close>

theorem scanner_window_counterexample:
  "student_assignments (committed demo_world_soon) = [sam_hw1]
   \<and> find (\<lambda>a. a_id a = sa_assignmentId sam_hw1) (assignments (committed demo_world_soon))
       = Some hw_soon
   \<and> sa_statusId sam_hw1 = SubmissionStatus_PENDING
   \<and> NOW demo_env = now demo_env
   \<and> now demo_env + 3540000000 \<le> a_deadline hw_soon
   \<and> a_deadline hw_soon \<le> now demo_env + 3600000000
   \<and> reminder_due (now demo_env) (committed demo_world_soon) sam_hw1
   \<and> notified (fst (notifyUpcomingAssignments demo_env demo_world_soon)) = []
   \<and> outbox (snd (notifyUpcomingAssignments demo_env demo_world_soon)) = []"
  by (simp add: demo_soon_tick) (simp add: reminder_due_def NOW_def demo_defs)

text \<open>
  Claim C9, amended. On a tick whose query is answered, with the tables as the
  schema keeps them (primary keys, foreign keys), the notifier is invoked once for
  each mapping row that is PENDING and whose assignment's deadline lies between 59
  and 60 minutes after the current instant read on a clock in Asia/Kolkata (the
  instant plus 5 h 30 min, 19 800 000 000 microseconds), in the order of the rows,
  with that student's address and that assignment's title and deadline. This is
  the window counted from the store's \<^verbatim>\<open>NOW()\<close> when the session's time zone is
  Asia/Kolkata. A delivery that fails is caught and logged, and the remaining
  recipients are still served: the mails delivered are those of the due rows whose
  delivery did not fail. The tick changes no table.
\<close>

theorem scanner_notifies_rows_due_on_kolkata_clock:
  assumes "referential_integrity (committed w)" and "\<not> fails env ''fetchUpcomingAssignments''"
  shows "notified (fst (notifyUpcomingAssignments env w))
           = map (\<lambda>sa. student_email (upcoming_of (committed w) sa))
               (filter (reminder_due (now env + 19800000000) (committed w))
                  (student_assignments (committed w)))
       \<and> outbox (snd (notifyUpcomingAssignments env w))
           = outbox w @ map (\<lambda>sa. mailOptions env (upcoming_of (committed w) sa))
               (filter (\<lambda>sa. reminder_due (now env + 19800000000) (committed w) sa
                            \<and> \<not> mail_fails env (student_email (upcoming_of (committed w) sa)))
                  (student_assignments (committed w)))
       \<and> committed (snd (notifyUpcomingAssignments env w)) = committed w
       \<and> (session_tz env = 19800000000 \<longrightarrow>
            notified (fst (notifyUpcomingAssignments env w))
              = map (\<lambda>sa. student_email (upcoming_of (committed w) sa))
                  (filter (reminder_due (NOW env) (committed w))
                     (student_assignments (committed w))))"
proof -
  let ?rows = "map (upcoming_of (committed w))
                 (filter (reminder_due (now env + 19800000000) (committed w))
                    (student_assignments (committed w)))"
  have fetch: "fetchUpcomingAssignments env w = Inr ?rows"
    using fetchUpcomingAssignments_integrity[OF assms] .
  obtain ls w' where send: "sendNotifications ?rows env w = (ls, w')" by force
  from sendNotifications_result[OF send]
  have res: "notified ls = map student_email ?rows"
    "outbox w' = outbox w @ map (mailOptions env)
                   (filter (\<lambda>r. \<not> mail_fails env (student_email r)) ?rows)" by auto
  have run: "notifyUpcomingAssignments env w = (if length ?rows > 0 then (ls, w') else ([NoUpcoming], w))"
    by (simp add: notifyUpcomingAssignments_def fetch send)
  have main: "notified (fst (notifyUpcomingAssignments env w))
           = map (\<lambda>sa. student_email (upcoming_of (committed w) sa))
               (filter (reminder_due (now env + 19800000000) (committed w))
                  (student_assignments (committed w)))
       \<and> outbox (snd (notifyUpcomingAssignments env w))
           = outbox w @ map (\<lambda>sa. mailOptions env (upcoming_of (committed w) sa))
               (filter (\<lambda>sa. reminder_due (now env + 19800000000) (committed w) sa
                            \<and> \<not> mail_fails env (student_email (upcoming_of (committed w) sa)))
                  (student_assignments (committed w)))
       \<and> committed (snd (notifyUpcomingAssignments env w)) = committed w"
  proof (cases "?rows = []")
    case True
    with run show ?thesis by (auto simp: filter_empty_conv)
  next
    case False
    with run have eq: "notifyUpcomingAssignments env w = (ls, w')" by simp
    from res show ?thesis
      unfolding eq
      by (simp add: notifyUpcomingAssignments_committed[of env w, unfolded eq, simplified]
            filter_map comp_def)
  qed
  then show ?thesis by (simp add: NOW_def)
qed

theorem scanner_notifies_rows_due_on_kolkata_clock_witness:
  "notified (fst (notifyUpcomingAssignments demo_env_sam_bounces demo_world_two))
     = [''sam@example.org'', ''sue@example.org'']
   \<and> map m_to (outbox (snd (notifyUpcomingAssignments demo_env_sam_bounces demo_world_two)))
     = [''sue@example.org'']"
  using scanner_notifies_rows_due_on_kolkata_clock [of demo_world_two demo_env_sam_bounces]
        demo_referential_integrity
  by (simp add: demo_defs reminder_due_def upcoming_of_def mailOptions_def)

end
